theory Spec2Isabelle
  imports Main "HOL-Library.AList"
begin

section \<open>JSON values and Python dictionaries\<close>

text \<open>
  Every value the tap handles comes out of \<^verbatim>\<open>json.loads\<close> or goes into
  \<^verbatim>\<open>json.dumps\<close>. A JSON object is a Python \<^verbatim>\<open>dict\<close>: keys are unique and kept in
  insertion order, so it is an association list that is only changed through
  \<open>AList.update\<close> (an existing key keeps its place, a new key goes to the end) and
  \<open>AList.delete\<close>.
\<close>

datatype json =
    JNull
  | JBool bool
  | JInt int
  | JStr string
  | JList "json list"
  | JObj "(string \<times> json) list"

type_synonym dict = "(string \<times> json) list"

datatype error =
    KeyError string
  | IndexError
  | TypeError
  | ValueError string
  | HTTPError json
  | RequestError json

text \<open>\<^verbatim>\<open>d[k]\<close> with a string key: a missing key raises, and so does subscripting
  anything that is not a dict by a string.\<close>

fun getitem :: "json \<Rightarrow> string \<Rightarrow> error + json" where
  "getitem (JObj d) k = (case map_of d k of None \<Rightarrow> Inl (KeyError k) | Some v \<Rightarrow> Inr v)"
| "getitem _ k = Inl TypeError"

text \<open>\<^verbatim>\<open>del d[k]\<close>.\<close>

fun delitem :: "json \<Rightarrow> string \<Rightarrow> error + json" where
  "delitem (JObj d) k =
     (case map_of d k of None \<Rightarrow> Inl (KeyError k) | Some v \<Rightarrow> Inr (JObj (AList.delete k d)))"
| "delitem _ k = Inl TypeError"

text \<open>\<^verbatim>\<open>x[0]\<close>: the first element of a list or string; a dict of string keys has no
  key \<^verbatim>\<open>0\<close>.\<close>

fun getindex0 :: "json \<Rightarrow> error + json" where
  "getindex0 (JList []) = Inl IndexError"
| "getindex0 (JList (x # xs)) = Inr x"
| "getindex0 (JStr []) = Inl IndexError"
| "getindex0 (JStr (c # cs)) = Inr (JStr [c])"
| "getindex0 (JObj d) = Inl (KeyError ''0'')"
| "getindex0 _ = Inl TypeError"

text \<open>What \<^verbatim>\<open>for x in v\<close> and \<^verbatim>\<open>len(v)\<close> see: the elements of a list, the characters
  of a string, the keys of a dict; nothing else is iterable.\<close>

fun py_iter :: "json \<Rightarrow> error + json list" where
  "py_iter (JList xs) = Inr xs"
| "py_iter (JStr s) = Inr (map (\<lambda>c. JStr [c]) s)"
| "py_iter (JObj d) = Inr (map (\<lambda>kv. JStr (fst kv)) d)"
| "py_iter _ = Inl TypeError"

text \<open>\<^verbatim>\<open>{**a, **b}\<close>: the entries of \<open>a\<close>, then those of \<open>b\<close> in their order, a key of
  \<open>b\<close> overriding the same key of \<open>a\<close>.\<close>

definition dict_merge :: "dict \<Rightarrow> dict \<Rightarrow> dict" where
  "dict_merge a b = fold (\<lambda>kv. AList.update (fst kv) (snd kv)) b a"

text \<open>An optional argument as \<^verbatim>\<open>json.dumps\<close> would write it.\<close>

fun of_optional :: "('a \<Rightarrow> json) \<Rightarrow> 'a option \<Rightarrow> json" where
  "of_optional f None = JNull"
| "of_optional f (Some x) = f x"

section \<open>Schema inference (tap.py, get_schema_for_table)\<close>

text \<open>A field descriptor of the probe's \<^verbatim>\<open>fields\<close> array.\<close>

record field_descriptor =
  name :: string
  fieldType :: string
  keyField :: bool

definition base_type :: json where
  "base_type = JObj [(''type'', JList [JStr ''null'', JStr ''string''])]"

text \<open>
  One pass of the loop over \<^verbatim>\<open>fields\<close>. The source stores a deep copy of
  \<^verbatim>\<open>base_type\<close> under the field's name and then appends to the copy's type list in
  place; the boolean branch is commented out in the source and is absent here.
\<close>

fun field_step :: "field_descriptor \<Rightarrow> dict \<times> string list \<Rightarrow> dict \<times> string list" where
  "field_step field (schema, key_properties) =
     (let field_name = name field;
          field_type = fieldType field;
          key_field = keyField field;
          types = [JStr ''null'', JStr ''string''] @
            (if field_type = ''int'' then [JStr ''integer'']
             else if field_type = ''long'' then [JStr ''integer'']
             else if field_type = ''double'' then [JStr ''number'']
             else [])
      in (AList.update field_name (JObj [(''type'', JList types)]) schema,
          if key_field then key_properties @ [field_name] else key_properties))"

text \<open>
  The part of \<^verbatim>\<open>get_schema_for_table\<close> after the probe call: \<open>probe_fields\<close> is
  the source's \<^verbatim>\<open>fields\<close>, the value
  \<^verbatim>\<open>sumo.get_sumologic_fields\<close> returned (a raise of the probe never reaches this
  code). The result is the schema as the JSON object the source returns.
\<close>

definition get_schema_for_table :: "string \<Rightarrow> field_descriptor list \<Rightarrow> json" where
  "get_schema_for_table query_type probe_fields =
     (if query_type = ''records'' \<or> query_type = ''messages'' then
        (let (schema, key_properties) = fold field_step probe_fields ([], []);
             schema = AList.update ''start_date'' base_type schema;
             schema = AList.update ''end_date'' base_type schema;
             schema = AList.update ''time_zone'' base_type schema;
             key_properties = key_properties @ [''start_date'', ''end_date'', ''time_zone''];
             key_properties =
               (if query_type = ''messages''
                then key_properties @ [''_messagetime'', ''_messageid'']
                else key_properties)
         in JObj [(''type'', JStr ''object''),
                  (''properties'', JObj schema),
                  (''key_properties'', JList (map JStr key_properties))])
      else if query_type = ''metrics'' then
        JObj [(''type'', JStr ''object''),
              (''properties'', JObj
                 [(''metricDefinition'', JObj [(''type'', JList [JStr ''object'', JStr ''null''])]),
                  (''points'', JObj [(''type'', JList [JStr ''object'', JStr ''null''])])]),
              (''key_properties'', JList [JStr ''metricDefinition'', JStr ''points''])]
      else JObj [])"

section \<open>The metrics request (sumologic_sdk.py, metrics_query)\<close>

text \<open>
  The body that \<^verbatim>\<open>metrics_query\<close> posts: the dict literal with all five keys of the
  query object, then the three conditional \<^verbatim>\<open>del\<close> statements.
\<close>

definition metrics_query_params ::
  "string \<Rightarrow> string \<Rightarrow> string \<Rightarrow> int option \<Rightarrow> string option \<Rightarrow> int option \<Rightarrow> json" where
  "metrics_query_params query from_time to_time quantization rollup timeshift =
     (let q = [(''rowId'', JStr ''A''),
               (''query'', JStr query),
               (''quantization'', of_optional JInt quantization),
               (''rollup'', of_optional JStr rollup),
               (''timeshift'', of_optional JInt timeshift)];
          q = (if quantization = None then AList.delete ''quantization'' q else q);
          q = (if rollup = None then AList.delete ''rollup'' q else q);
          q = (if timeshift = None then AList.delete ''timeshift'' q else q)
      in JObj [(''queries'', JList [JObj q]),
               (''timeRange'', JObj
                  [(''type'', JStr ''BeginBoundedTimeRange''),
                   (''from'', JObj [(''type'', JStr ''Iso8601TimeRangeBoundary''),
                                    (''iso8601Time'', JStr (from_time @ ''.00+00:00''))]),
                   (''to'', JObj [(''type'', JStr ''Iso8601TimeRangeBoundary''),
                                  (''iso8601Time'', JStr (to_time @ ''.00+00:00''))])])])"

text \<open>\<^verbatim>\<open>params["queries"][0]\<close>, the query object of a request body.\<close>

definition query_object :: "json \<Rightarrow> error + json" where
  "query_object params =
     (case getitem params ''queries'' of Inl e \<Rightarrow> Inl e | Inr qs \<Rightarrow> getindex0 qs)"

section \<open>The HTTP boundary and the SDK calls (sumologic_sdk.py)\<close>

text \<open>
  The four requests the tap sends. The URL of a status or results request is built from
  \<^verbatim>\<open>search_job["id"]\<close>; the request keeps that value as it is.
\<close>

datatype request =
    SubmitJob json
  | JobStatus json
  | JobRecords json string int int
  | MetricsQuery json

text \<open>
  The service as one run of the tap sees it: the answer to the \<open>n\<close>-th HTTP call of the
  run, counted from 0, given the request sent. \<open>Inl\<close> is what \<^verbatim>\<open>raise_for_status\<close> or
  \<^verbatim>\<open>json.loads\<close> raised. The number of calls made so far is the only state the run
  threads through.
\<close>

type_synonym api = "nat \<Rightarrow> request \<Rightarrow> error + json"

definition search_job ::
  "api \<Rightarrow> nat \<Rightarrow> string \<Rightarrow> string \<Rightarrow> string \<Rightarrow> string \<Rightarrow> bool \<Rightarrow> string \<Rightarrow> error + json" where
  "search_job api n query from_time to_time time_zone by_receipt_time auto_parsing_mode =
     api n (SubmitJob (JObj
       [(''query'', JStr query),
        (''from'', JStr from_time),
        (''to'', JStr to_time),
        (''timeZone'', JStr time_zone),
        (''byReceiptTime'', JBool by_receipt_time),
        (''autoParsingMode'', JStr auto_parsing_mode)]))"

definition search_job_status :: "api \<Rightarrow> nat \<Rightarrow> json \<Rightarrow> error + json" where
  "search_job_status api n job =
     (case getitem job ''id'' of
        Inl e \<Rightarrow> Inl e
      | Inr job_id \<Rightarrow> api n (JobStatus job_id))"

definition search_job_records ::
  "api \<Rightarrow> nat \<Rightarrow> json \<Rightarrow> string \<Rightarrow> int \<Rightarrow> int \<Rightarrow> error + json" where
  "search_job_records api n job qt limit offset =
     (case getitem job ''id'' of
        Inl e \<Rightarrow> Inl e
      | Inr job_id \<Rightarrow> api n (JobRecords job_id qt limit offset))"

definition metrics_query ::
  "api \<Rightarrow> nat \<Rightarrow> string \<Rightarrow> string \<Rightarrow> string \<Rightarrow> int option \<Rightarrow> string option \<Rightarrow> int option
     \<Rightarrow> error + json" where
  "metrics_query api n query from_time to_time quantization rollup timeshift =
     api n (MetricsQuery
       (metrics_query_params query from_time to_time quantization rollup timeshift))"

text \<open>\<^verbatim>\<open>response["queryResult"][0]["timeSeriesList"]["timeSeries"]\<close>.\<close>

definition time_series :: "json \<Rightarrow> error + json" where
  "time_series response =
     (case getitem response ''queryResult'' of
        Inl e \<Rightarrow> Inl e
      | Inr results \<Rightarrow>
          (case getindex0 results of
             Inl e \<Rightarrow> Inl e
           | Inr result \<Rightarrow>
               (case getitem result ''timeSeriesList'' of
                  Inl e \<Rightarrow> Inl e
                | Inr series \<Rightarrow> getitem series ''timeSeries'')))"

text \<open>
  \<^verbatim>\<open>get_metrics_query_fields\<close>, the metrics probe of schema inference: it raises
  \<^verbatim>\<open>Exception(f"Request error: {metrics_query['errors']}")\<close> when the response's error
  list is not empty. \<open>RequestError\<close> carries that payload.
\<close>

definition get_metrics_query_fields ::
  "api \<Rightarrow> nat \<Rightarrow> string \<Rightarrow> string \<Rightarrow> string \<Rightarrow> int option \<Rightarrow> string option \<Rightarrow> int option
     \<Rightarrow> error + json" where
  "get_metrics_query_fields api n query from_time to_time quantization rollup timeshift =
     (case metrics_query api n query from_time to_time quantization rollup timeshift of
        Inl e \<Rightarrow> Inl e
      | Inr response \<Rightarrow>
          (case getitem response ''errors'' of
             Inl e \<Rightarrow> Inl e
           | Inr errors \<Rightarrow>
               (case getitem errors ''errors'' of
                  Inl e \<Rightarrow> Inl e
                | Inr error_list \<Rightarrow>
                    (case py_iter error_list of
                       Inl e \<Rightarrow> Inl e
                     | Inr es \<Rightarrow>
                         if length es > 0 then Inl (RequestError errors)
                         else time_series response))))"

section \<open>Extraction (streams.py, SearchJobStream.get_records)\<close>

record config =
  start_date :: string
  end_date :: string
  time_zone :: string

text \<open>The attributes of a \<^verbatim>\<open>SearchJobStream\<close> (the replication key, which nothing
  below reads, is left out).\<close>

record stream =
  stream_name :: string
  query_type :: string
  primary_keys :: json
  schema :: json
  query :: string
  by_receipt_time :: bool
  auto_parsing_mode :: string
  quantization :: "int option"
  rollup :: "string option"
  timeshift :: "int option"

text \<open>The metadata block; \<open>now_datetime\<close> is the clock reading taken once at the start
  of \<^verbatim>\<open>get_records\<close>.\<close>

definition custom_columns :: "config \<Rightarrow> string \<Rightarrow> dict" where
  "custom_columns cfg now_datetime =
     [(''start_date'', JStr (start_date cfg)),
      (''end_date'', JStr (end_date cfg)),
      (''time_zone'', JStr (time_zone cfg)),
      (''_SDC_EXTRACTED_AT'', JStr now_datetime),
      (''_SDC_BATCHED_AT'', JStr now_datetime),
      (''_SDC_DELETED_AT'', JNull)]"

text \<open>
  The inner loop \<^verbatim>\<open>for rec in recs: records.append({**rec["map"], **custom_columns})\<close>,
  returning the records to append. Unpacking \<^verbatim>\<open>**\<close> needs a mapping.
\<close>

fun shape_rows :: "dict \<Rightarrow> json list \<Rightarrow> error + json list" where
  "shape_rows cc [] = Inr []"
| "shape_rows cc (rec # recs) =
     (case getitem rec ''map'' of
        Inl e \<Rightarrow> Inl e
      | Inr (JObj m) \<Rightarrow>
          (case shape_rows cc recs of
             Inl e \<Rightarrow> Inl e
           | Inr rs \<Rightarrow> Inr (JObj (dict_merge m cc) # rs))
      | Inr _ \<Rightarrow> Inl TypeError)"

text \<open>
  The pagination loop \<^verbatim>\<open>while count < record_count\<close>. \<open>n\<close> is the number of HTTP
  calls made so far. The result is the loop's final state: the records, the offset
  \<open>count\<close> and the number of calls.
\<close>

function paginate ::
  "api \<Rightarrow> json \<Rightarrow> string \<Rightarrow> dict \<Rightarrow> int \<Rightarrow> nat \<Rightarrow> int \<Rightarrow> json list
     \<Rightarrow> error + json list \<times> int \<times> nat" where
  "paginate api job qt cc record_count n count records =
     (if count < record_count then
        (case search_job_records api n job qt 10000 count of
           Inl e \<Rightarrow> Inl e
         | Inr response \<Rightarrow>
             (case getitem response qt of
                Inl e \<Rightarrow> Inl e
              | Inr recs \<Rightarrow>
                  (case py_iter recs of
                     Inl e \<Rightarrow> Inl e
                   | Inr rows \<Rightarrow>
                       (case shape_rows cc rows of
                          Inl e \<Rightarrow> Inl e
                        | Inr new \<Rightarrow>
                            if length rows > 0 then
                              paginate api job qt cc record_count (Suc n)
                                (count + int (length rows)) (records @ new)
                            else Inr (records @ new, count, Suc n)))))
      else Inr (records, count, n))"
  by pat_completeness auto
termination
  by (relation "measure (\<lambda>(api, job, qt, cc, record_count, n, count, records).
        nat (record_count - count))") auto

text \<open>The operand of \<^verbatim>\<open>count < record_count\<close>: an integer (a JSON boolean is one in
  Python); comparing an integer with anything else raises.\<close>

fun py_number :: "json \<Rightarrow> error + int" where
  "py_number (JInt i) = Inr i"
| "py_number (JBool b) = Inr (if b then 1 else 0)"
| "py_number _ = Inl TypeError"

text \<open>
  The polling loop of the full extraction, entered with the status of the first call.
  It has no iteration bound in the source, so it may never return: \<open>None\<close>.
  \<^verbatim>\<open>time.sleep\<close> and the logger leave no trace here.
\<close>

partial_function (option) poll ::
  "api \<Rightarrow> json \<Rightarrow> nat \<Rightarrow> json \<Rightarrow> (error + json \<times> nat) option" where
  "poll api job n status =
     (case getitem status ''state'' of
        Inl e \<Rightarrow> Some (Inl e)
      | Inr state \<Rightarrow>
          if state = JStr ''DONE GATHERING RESULTS'' then Some (Inr (status, n))
          else if state = JStr ''CANCELLED'' then Some (Inr (status, n))
          else
            (case search_job_status api n job of
               Inl e \<Rightarrow> Some (Inl e)
             | Inr status' \<Rightarrow>
                 (case delitem status' ''histogramBuckets'' of
                    Inl e \<Rightarrow> Some (Inl e)
                  | Inr status'' \<Rightarrow> poll api job (Suc n) status'')))"

text \<open>What follows the polling loop: the state is read again, and a finished job is
  paged through.\<close>

definition read_results ::
  "api \<Rightarrow> json \<Rightarrow> string \<Rightarrow> dict \<Rightarrow> json \<Rightarrow> nat \<Rightarrow> error + json list" where
  "read_results api job qt cc status n =
     (case getitem status ''state'' of
        Inl e \<Rightarrow> Inl e
      | Inr state \<Rightarrow>
          if state = JStr ''DONE GATHERING RESULTS'' then
            (case getitem status (butlast qt @ ''Count'') of
               Inl e \<Rightarrow> Inl e
             | Inr c \<Rightarrow>
                 (case py_number c of
                    Inl e \<Rightarrow> Inl e
                  | Inr record_count \<Rightarrow>
                      (case paginate api job qt cc record_count n 0 [] of
                         Inl e \<Rightarrow> Inl e
                       | Inr final \<Rightarrow> Inr (fst final))))
          else Inr [])"

text \<open>The polling loop and what follows it, from the status of the first call on
  (which was HTTP call 1, so the next call is call 2).\<close>

definition drive_job ::
  "api \<Rightarrow> json \<Rightarrow> string \<Rightarrow> dict \<Rightarrow> json \<Rightarrow> (error + json list) option" where
  "drive_job api job qt cc status =
     (case poll api job 2 status of
        None \<Rightarrow> None
      | Some (Inl e) \<Rightarrow> Some (Inl e)
      | Some (Inr final) \<Rightarrow> Some (read_results api job qt cc (fst final) (snd final)))"

text \<open>
  \<^verbatim>\<open>get_records\<close>, drained: the list of the rows the generator yields, or the error it
  raises, or \<open>None\<close> when the polling never ends. The generator builds the whole list
  before its first \<^verbatim>\<open>yield\<close>.
\<close>

definition get_records :: "api \<Rightarrow> config \<Rightarrow> string \<Rightarrow> stream \<Rightarrow> (error + json list) option" where
  "get_records api cfg now_datetime self =
     (let cc = custom_columns cfg now_datetime in
      if query_type self = ''messages'' \<or> query_type self = ''records'' then
        (case search_job api 0 (query self) (start_date cfg) (end_date cfg) (time_zone cfg)
                (by_receipt_time self) (auto_parsing_mode self) of
           Inl e \<Rightarrow> Some (Inl e)
         | Inr job \<Rightarrow>
             (case search_job_status api 1 job of
                Inl e \<Rightarrow> Some (Inl e)
              | Inr status \<Rightarrow> drive_job api job (query_type self) cc status))
      else if query_type self = ''metrics'' then
        (case metrics_query api 0 (query self) (start_date cfg) (end_date cfg)
                (quantization self) (rollup self) (timeshift self) of
           Inl e \<Rightarrow> Some (Inl e)
         | Inr response \<Rightarrow>
             (case time_series response of
                Inl e \<Rightarrow> Some (Inl e)
              | Inr records \<Rightarrow> Some (py_iter records)))
      else Some (Inr []))"

section \<open>Stream construction (tap.py, discover_streams)\<close>

datatype schema_config = SchemaPath string | SchemaObject json | NoSchema

record table_config =
  tc_query :: string
  tc_table_name :: string
  tc_query_type :: string
  tc_primary_keys :: "string list"
  tc_by_receipt_time :: bool
  tc_auto_parsing_mode :: string
  tc_quantization :: "int option"
  tc_rollup :: "string option"
  tc_timeshift :: "int option"
  tc_schema :: schema_config

text \<open>
  The three collaborators of schema resolution: reading a schema file, genson's
  \<^verbatim>\<open>SchemaBuilder\<close>, and the probe (building the SDK client and calling
  \<^verbatim>\<open>sumo.get_sumologic_fields\<close>, whose value is read for records and messages tables
  only).
\<close>

record resolver =
  load_schema :: "string \<Rightarrow> error + json"
  build_schema :: "json \<Rightarrow> json"
  probe :: "table_config \<Rightarrow> error + field_descriptor list"

text \<open>One pass of the loop over \<^verbatim>\<open>self.config["tables"]\<close>. \<^verbatim>\<open>a or b\<close> is \<open>a\<close> unless
  \<open>a\<close> is falsy, and an empty list is. The constructor of the stream replaces a
  \<^verbatim>\<open>None\<close> for the primary keys by the empty list.\<close>

definition discover_stream :: "resolver \<Rightarrow> table_config \<Rightarrow> error + stream" where
  "discover_stream env tc =
     (case (case tc_schema tc of
              SchemaPath p \<Rightarrow> load_schema env p
            | SchemaObject d \<Rightarrow> Inr (build_schema env d)
            | NoSchema \<Rightarrow>
                (case probe env tc of
                   Inl e \<Rightarrow> Inl e
                 | Inr fs \<Rightarrow> Inr (get_schema_for_table (tc_query_type tc) fs))) of
        Inl e \<Rightarrow> Inl e
      | Inr sch \<Rightarrow>
          if \<not> List.member [''records'', ''messages'', ''metrics''] (tc_query_type tc)
          then Inl (ValueError (tc_query_type tc))
          else
            (case (if tc_primary_keys tc \<noteq> [] then Inr (JList (map JStr (tc_primary_keys tc)))
                   else getitem sch ''key_properties'') of
               Inl e \<Rightarrow> Inl e
             | Inr pks \<Rightarrow>
                 Inr \<lparr>stream_name = tc_table_name tc,
                      query_type = tc_query_type tc,
                      primary_keys = (if pks = JNull then JList [] else pks),
                      schema = sch,
                      query = tc_query tc,
                      by_receipt_time = tc_by_receipt_time tc,
                      auto_parsing_mode = tc_auto_parsing_mode tc,
                      quantization = tc_quantization tc,
                      rollup = tc_rollup tc,
                      timeshift = tc_timeshift tc\<rparr>))"

fun discover_streams :: "resolver \<Rightarrow> table_config list \<Rightarrow> error + stream list" where
  "discover_streams env [] = Inr []"
| "discover_streams env (tc # tcs) =
     (case discover_stream env tc of
        Inl e \<Rightarrow> Inl e
      | Inr s \<Rightarrow>
          (case discover_streams env tcs of
             Inl e \<Rightarrow> Inl e
           | Inr ss \<Rightarrow> Inr (s # ss)))"

section \<open>Vocabulary of the properties\<close>

text \<open>\<^verbatim>\<open>schema["properties"][k]\<close>.\<close>

definition schema_property :: "json \<Rightarrow> string \<Rightarrow> error + json" where
  "schema_property sch k =
     (case getitem sch ''properties'' of Inl e \<Rightarrow> Inl e | Inr props \<Rightarrow> getitem props k)"

text \<open>The schema entry the type mapping is said to give a reported field type.\<close>

definition inferred_type :: "string \<Rightarrow> json" where
  "inferred_type t =
     JObj [(''type'', JList (map JStr
       (if t = ''int'' \<or> t = ''long'' then [''null'', ''string'', ''integer'']
        else if t = ''double'' then [''null'', ''string'', ''number'']
        else [''null'', ''string''])))]"

definition metadata_columns :: "string list" where
  "metadata_columns =
     [''start_date'', ''end_date'', ''time_zone'',
      ''_SDC_EXTRACTED_AT'', ''_SDC_BATCHED_AT'', ''_SDC_DELETED_AT'']"

text \<open>A record conforms to a schema: it has every key of the schema's properties, and
  no key that is neither a schema property nor a metadata column.\<close>

definition conforms :: "json \<Rightarrow> json \<Rightarrow> bool" where
  "conforms sch r =
     (case getitem sch ''properties'' of
        Inr (JObj props) \<Rightarrow>
          (case r of
             JObj d \<Rightarrow>
               list_all (\<lambda>k. List.member (map fst d) k) (map fst props) \<and>
               list_all (\<lambda>k. List.member (map fst props) k \<or> List.member metadata_columns k)
                 (map fst d)
           | _ \<Rightarrow> False)
      | _ \<Rightarrow> False)"

text \<open>A status payload whose state is neither of the two terminal states, and one that
  carries the histogram key.\<close>

definition pending :: "json \<Rightarrow> bool" where
  "pending status =
     (case getitem status ''state'' of
        Inl e \<Rightarrow> False
      | Inr state \<Rightarrow> state \<noteq> JStr ''DONE GATHERING RESULTS'' \<and> state \<noteq> JStr ''CANCELLED'')"

definition has_histogram :: "json \<Rightarrow> bool" where
  "has_histogram status =
     (case getitem status ''histogramBuckets'' of Inl e \<Rightarrow> False | Inr v \<Rightarrow> True)"

text \<open>A status payload as the polling loop keeps it: without the histogram key.\<close>

definition strip_histogram :: "json \<Rightarrow> json" where
  "strip_histogram status =
     (case status of JObj d \<Rightarrow> JObj (AList.delete ''histogramBuckets'' d) | _ \<Rightarrow> status)"

text \<open>The record made of a row: the row's field map merged with the metadata block
  \<open>cc\<close>.\<close>

definition merged_record :: "dict \<Rightarrow> json \<Rightarrow> json \<Rightarrow> bool" where
  "merged_record cc row r =
     (case getitem row ''map'' of
        Inr (JObj m) \<Rightarrow> r = JObj (dict_merge m cc)
      | _ \<Rightarrow> False)"

text \<open>
  The rows of a job's results as the service serves them to the page requests of one
  run: pages of at most 10000 rows, the first asked at offset \<open>count\<close> by HTTP call \<open>n\<close>,
  each next one at the offset the rows served so far add up to, until the offset reaches
  the total count or a page has no row.
\<close>

function result_pages :: "api \<Rightarrow> json \<Rightarrow> string \<Rightarrow> int \<Rightarrow> nat \<Rightarrow> int \<Rightarrow> json list" where
  "result_pages api job qt record_count n count =
     (if count < record_count then
        (case search_job_records api n job qt 10000 count of
           Inl e \<Rightarrow> []
         | Inr response \<Rightarrow>
             (case getitem response qt of
                Inl e \<Rightarrow> []
              | Inr recs \<Rightarrow>
                  (case py_iter recs of
                     Inl e \<Rightarrow> []
                   | Inr rows \<Rightarrow>
                       if length rows > 0 then
                         rows @ result_pages api job qt record_count (Suc n)
                                  (count + int (length rows))
                       else [])))
      else [])"
  by pat_completeness auto
termination
  by (relation "measure (\<lambda>(api, job, qt, record_count, n, count). nat (record_count - count))")
     auto

text \<open>The rows of a job whose polling ended with \<open>status\<close> after \<open>n\<close> HTTP calls: those of
  its result pages, up to the total count the status reports, when the job is done, and
  none when it is not.\<close>

definition job_rows :: "api \<Rightarrow> json \<Rightarrow> string \<Rightarrow> json \<Rightarrow> nat \<Rightarrow> json list" where
  "job_rows api job qt status n =
     (case getitem status ''state'' of
        Inl e \<Rightarrow> []
      | Inr state \<Rightarrow>
          if state = JStr ''DONE GATHERING RESULTS'' then
            (case getitem status (butlast qt @ ''Count'') of
               Inl e \<Rightarrow> []
             | Inr c \<Rightarrow>
                 (case py_number c of
                    Inl e \<Rightarrow> []
                  | Inr record_count \<Rightarrow> result_pages api job qt record_count n 0))
          else [])"

section \<open>Example runs\<close>

definition ex_config :: config where
  "ex_config = \<lparr>start_date = ''2024-01-01T00:00:00'', end_date = ''2024-01-02T00:00:00'',
                 time_zone = ''UTC''\<rparr>"

definition ex_stream :: "string \<Rightarrow> json \<Rightarrow> stream" where
  "ex_stream qt sch =
     \<lparr>stream_name = ''logs'', query_type = qt, primary_keys = JList [], schema = sch,
      query = ''_sourceCategory=prod'', by_receipt_time = False,
      auto_parsing_mode = ''intelligent'', quantization = None, rollup = None,
      timeshift = None\<rparr>"

definition ex_job :: json where
  "ex_job = JObj [(''id'', JStr ''J1'')]"

definition ex_status :: "string \<Rightarrow> int \<Rightarrow> json" where
  "ex_status state k =
     JObj [(''state'', JStr state), (''histogramBuckets'', JList []),
           (''messageCount'', JInt k), (''recordCount'', JInt k)]"

text \<open>A job polled as GATHERING, GATHERING, CANCELLED.\<close>

definition api_cancelled :: api where
  "api_cancelled n req =
     (case req of
        SubmitJob body \<Rightarrow> Inr ex_job
      | JobStatus job_id \<Rightarrow>
          if n < 3 then Inr (ex_status ''GATHERING RESULTS'' 0) else Inr (ex_status ''CANCELLED'' 0)
      | _ \<Rightarrow> Inl (HTTPError JNull))"

text \<open>A job polled as GATHERING, GATHERING, CANCELLED, whose CANCELLED status comes
  without the histogram key.\<close>

definition api_cancelled_bare :: api where
  "api_cancelled_bare n req =
     (case req of
        SubmitJob body \<Rightarrow> Inr ex_job
      | JobStatus job_id \<Rightarrow>
          if n < 3 then Inr (ex_status ''GATHERING RESULTS'' 0)
          else Inr (JObj [(''state'', JStr ''CANCELLED''), (''recordCount'', JInt 0)])
      | _ \<Rightarrow> Inl (HTTPError JNull))"

text \<open>A job that is done at the first status call; its results are \<open>rows\<close>, served from
  the requested offset.\<close>

definition api_done :: "json list \<Rightarrow> api" where
  "api_done rows n req =
     (case req of
        SubmitJob body \<Rightarrow> Inr ex_job
      | JobStatus job_id \<Rightarrow> Inr (ex_status ''DONE GATHERING RESULTS'' (int (length rows)))
      | JobRecords job_id qt limit offset \<Rightarrow>
          Inr (JObj [(''fields'', JList []), (qt, JList (drop (nat offset) rows))])
      | _ \<Rightarrow> Inl (HTTPError JNull))"

text \<open>A job whose second in-loop status is terminal and comes without the histogram
  key; the first status (before the loop) has no such key either.\<close>

definition api_no_histogram :: api where
  "api_no_histogram n req =
     (case req of
        SubmitJob body \<Rightarrow> Inr ex_job
      | JobStatus job_id \<Rightarrow>
          if n = 1 then Inr (JObj [(''state'', JStr ''GATHERING RESULTS'')])
          else if n = 2 then Inr (ex_status ''GATHERING RESULTS'' 0)
          else Inr (JObj [(''state'', JStr ''DONE GATHERING RESULTS''), (''recordCount'', JInt 0)])
      | _ \<Rightarrow> Inl (HTTPError JNull))"

text \<open>A metrics response that reports an error and one time series.\<close>

definition ex_metrics_response :: json where
  "ex_metrics_response =
     JObj [(''queryResult'',
              JList [JObj [(''rowId'', JStr ''A''),
                           (''timeSeriesList'',
                              JObj [(''timeSeries'',
                                 JList [JObj [(''metricDefinition'', JObj []),
                                              (''points'', JObj [])]])])]]),
           (''errors'',
              JObj [(''errors'', JList [JObj [(''message'', JStr ''The query timed out'')]])])]"

definition api_metrics :: "json \<Rightarrow> api" where
  "api_metrics response n req =
     (case req of MetricsQuery body \<Rightarrow> Inr response | _ \<Rightarrow> Inl (HTTPError JNull))"

definition ex_resolver :: "field_descriptor list \<Rightarrow> resolver" where
  "ex_resolver fs =
     \<lparr>load_schema = (\<lambda>p. Inl (ValueError p)), build_schema = (\<lambda>d. d), probe = (\<lambda>tc. Inr fs)\<rparr>"

definition ex_table :: "string \<Rightarrow> string list \<Rightarrow> table_config" where
  "ex_table qt pks =
     \<lparr>tc_query = ''_sourceCategory=prod'', tc_table_name = ''logs'', tc_query_type = qt,
      tc_primary_keys = pks, tc_by_receipt_time = False,
      tc_auto_parsing_mode = ''intelligent'', tc_quantization = None, tc_rollup = None,
      tc_timeshift = None, tc_schema = NoSchema\<rparr>"

definition host_field :: field_descriptor where
  "host_field = \<lparr>name = ''host'', fieldType = ''string'', keyField = True\<rparr>"

text \<open>A row of a results page with one field.\<close>

definition ex_row :: "string \<Rightarrow> json" where
  "ex_row h = JObj [(''map'', JObj [(''host'', JStr h)])]"

text \<open>The clock reading of the example runs, and a row that has a field the probe did
  not report.\<close>

definition ex_now :: string where
  "ex_now = ''2024-01-03 00:00:00.000000''"

definition raw_row :: json where
  "raw_row = JObj [(''map'', JObj [(''_raw'', JStr ''boom'')])]"

section \<open>Schema inference: type mapping and key properties\<close>

lemma field_step_fst:
  "fst (field_step f acc) = AList.update (name f) (inferred_type (fieldType f)) (fst acc)"
  by (cases acc) (simp add: inferred_type_def Let_def)

lemma field_step_snd:
  "snd (field_step f acc) = snd acc @ (if keyField f then [name f] else [])"
  by (cases acc) (simp add: Let_def)

declare field_step.simps [simp del]

lemma fold_field_step_keys:
  "snd (fold field_step fs acc) = snd acc @ map name (filter keyField fs)"
  by (induction fs arbitrary: acc) (simp_all add: field_step_snd)

lemma fold_field_step_other:
  "k \<notin> name ` set fs \<Longrightarrow> map_of (fst (fold field_step fs acc)) k = map_of (fst acc) k"
  by (induction fs arbitrary: acc) (auto simp: field_step_fst update_conv')

lemma fold_field_step_lookup:
  "distinct (map name fs) \<Longrightarrow> f \<in> set fs \<Longrightarrow>
   map_of (fst (fold field_step fs acc)) (name f) = Some (inferred_type (fieldType f))"
proof (induction fs arbitrary: acc)
  case Nil
  then show ?case by simp
next
  case (Cons g fs)
  show ?case
  proof (cases "f = g")
    case True
    with Cons.prems have "name f \<notin> name ` set fs" by auto
    then show ?thesis using True
      by (simp add: fold_field_step_other field_step_fst update_conv')
  next
    case False
    with Cons.prems have "f \<in> set fs" "distinct (map name fs)" by auto
    then show ?thesis using Cons.IH by simp
  qed
qed

lemma fold_field_step_dom:
  "fst ` set (fst (fold field_step fs acc)) = fst ` set (fst acc) \<union> name ` set fs"
proof (induction fs arbitrary: acc)
  case Nil
  show ?case by simp
next
  case (Cons g fs)
  show ?case
    by (simp add: Cons.IH field_step_fst dom_update Un_assoc)
qed

lemma schema_property_inferred:
  assumes "qt = ''records'' \<or> qt = ''messages''"
  shows "schema_property (get_schema_for_table qt fs) k =
     (if k = ''start_date'' \<or> k = ''end_date'' \<or> k = ''time_zone'' then Inr base_type
      else getitem (JObj (fst (fold field_step fs ([], [])))) k)"
  using assms
  by (auto simp: schema_property_def get_schema_for_table_def Let_def update_conv'
           split: prod.splits)

lemma key_properties_inferred:
  assumes "qt = ''records'' \<or> qt = ''messages''"
  shows "getitem (get_schema_for_table qt fs) ''key_properties'' =
     Inr (JList (map JStr (map name (filter keyField fs)
        @ [''start_date'', ''end_date'', ''time_zone'']
        @ (if qt = ''messages'' then [''_messagetime'', ''_messageid''] else []))))"
  using assms fold_field_step_keys [of fs "([], [])"]
  by (auto simp: get_schema_for_table_def Let_def split: prod.splits)

text \<open>
  C5. The type mapping is total and deterministic. Whatever the descriptor, the loop
  body stores under the field's name the entry \<open>inferred_type\<close> gives its reported type:
  null, string and integer for int and long, null, string and number for double, null
  and string for anything else; a reported boolean gets null and string, never boolean.
  The entry is the one found in the finished schema of a records or messages table when
  the probe's field names are distinct and the name is not one of the three window
  columns, which the schema sets afterwards.
\<close>

theorem type_mapping_total:
  "map_of (fst (field_step f (sch, kps))) (name f) = Some (inferred_type (fieldType f))
   \<and> (\<forall>qt fs. (qt = ''records'' \<or> qt = ''messages'') \<and> distinct (map name fs) \<and> f \<in> set fs
          \<and> name f \<noteq> ''start_date'' \<and> name f \<noteq> ''end_date'' \<and> name f \<noteq> ''time_zone''
        \<longrightarrow> schema_property (get_schema_for_table qt fs) (name f)
              = Inr (inferred_type (fieldType f)))
   \<and> inferred_type ''int'' = JObj [(''type'', JList [JStr ''null'', JStr ''string'', JStr ''integer''])]
   \<and> inferred_type ''long'' = JObj [(''type'', JList [JStr ''null'', JStr ''string'', JStr ''integer''])]
   \<and> inferred_type ''double'' = JObj [(''type'', JList [JStr ''null'', JStr ''string'', JStr ''number''])]
   \<and> inferred_type ''boolean'' = JObj [(''type'', JList [JStr ''null'', JStr ''string''])]"
proof -
  have step: "map_of (fst (field_step f (sch, kps))) (name f) = Some (inferred_type (fieldType f))"
    by (simp add: field_step_fst update_conv')
  have whole: "schema_property (get_schema_for_table qt fs) (name f)
      = Inr (inferred_type (fieldType f))"
    if "qt = ''records'' \<or> qt = ''messages''" "distinct (map name fs)" "f \<in> set fs"
       "name f \<noteq> ''start_date''" "name f \<noteq> ''end_date''" "name f \<noteq> ''time_zone''"
    for qt fs
    using that by (simp add: schema_property_inferred fold_field_step_lookup)
  have vals: "inferred_type ''int'' = JObj [(''type'', JList [JStr ''null'', JStr ''string'', JStr ''integer''])]"
    "inferred_type ''long'' = JObj [(''type'', JList [JStr ''null'', JStr ''string'', JStr ''integer''])]"
    "inferred_type ''double'' = JObj [(''type'', JList [JStr ''null'', JStr ''string'', JStr ''number''])]"
    "inferred_type ''boolean'' = JObj [(''type'', JList [JStr ''null'', JStr ''string''])]"
    by (simp_all add: inferred_type_def)
  from step whole vals show ?thesis by blast
qed

theorem type_mapping_total_witness:
  "schema_property
     (get_schema_for_table ''records''
        [\<lparr>name = ''n'', fieldType = ''long'', keyField = False\<rparr>,
         \<lparr>name = ''ok'', fieldType = ''boolean'', keyField = False\<rparr>]) ''ok''
   = Inr (JObj [(''type'', JList [JStr ''null'', JStr ''string''])])"
proof -
  let ?f = "\<lparr>name = ''ok'', fieldType = ''boolean'', keyField = False\<rparr>"
  let ?fs = "[\<lparr>name = ''n'', fieldType = ''long'', keyField = False\<rparr>, ?f]"
  have "(''records'' = ''records'' \<or> ''records'' = ''messages'') \<and> distinct (map name ?fs)
      \<and> ?f \<in> set ?fs \<and> name ?f \<noteq> ''start_date'' \<and> name ?f \<noteq> ''end_date''
      \<and> name ?f \<noteq> ''time_zone''"
    by simp
  with type_mapping_total [of ?f "[]" "[]"]
  have "schema_property (get_schema_for_table ''records'' ?fs) (name ?f)
      = Inr (inferred_type (fieldType ?f))"
    by blast
  then show ?thesis by (simp add: inferred_type_def)
qed

text \<open>
  C6. For a records or messages table inferred from the probe's field descriptors, the
  key-property list is the names of the descriptors flagged as key fields, in the
  probe's order, then start_date, end_date and time_zone, then, for a messages table
  only, _messagetime and _messageid; the three window columns are schema properties
  too.
\<close>

theorem inferred_key_properties:
  assumes "qt = ''records'' \<or> qt = ''messages''"
  shows "getitem (get_schema_for_table qt fs) ''key_properties'' =
           Inr (JList (map JStr (map name (filter keyField fs)
              @ [''start_date'', ''end_date'', ''time_zone'']
              @ (if qt = ''messages'' then [''_messagetime'', ''_messageid''] else []))))
         \<and> schema_property (get_schema_for_table qt fs) ''start_date'' = Inr base_type
         \<and> schema_property (get_schema_for_table qt fs) ''end_date'' = Inr base_type
         \<and> schema_property (get_schema_for_table qt fs) ''time_zone'' = Inr base_type"
  using assms by (simp add: key_properties_inferred schema_property_inferred)

theorem inferred_key_properties_witness:
  "getitem (get_schema_for_table ''messages'' [host_field]) ''key_properties'' =
     Inr (JList [JStr ''host'', JStr ''start_date'', JStr ''end_date'', JStr ''time_zone'',
                 JStr ''_messagetime'', JStr ''_messageid''])
   \<and> schema_property (get_schema_for_table ''messages'' [host_field]) ''host''
       = Inr (JObj [(''type'', JList [JStr ''null'', JStr ''string''])])"
proof -
  have q: "''messages'' = ''records'' \<or> ''messages'' = ''messages''" by simp
  have "schema_property (get_schema_for_table ''messages'' [host_field]) ''host''
       = Inr (JObj [(''type'', JList [JStr ''null'', JStr ''string''])])"
    by (simp add: schema_property_inferred field_step_fst inferred_type_def host_field_def)
  then show ?thesis
    using inferred_key_properties [OF q, of "[host_field]"] by (simp add: host_field_def)
qed

section \<open>The metrics request\<close>

text \<open>
  C7. In the request \<^verbatim>\<open>metrics_query\<close> builds, the query object has the key
  quantization, rollup or timeshift exactly when that parameter is set, and then with
  the configured value (a key of an association list is absent exactly when \<open>map_of\<close>
  gives \<open>None\<close>); with none of the three set, the query object has the keys rowId and
  query and no other.
\<close>

theorem optional_parameters_omitted:
  "(\<exists>q. query_object (metrics_query_params qu f t qz ru ts) = Inr (JObj q)
      \<and> map_of q ''quantization'' = map_option JInt qz
      \<and> map_of q ''rollup'' = map_option JStr ru
      \<and> map_of q ''timeshift'' = map_option JInt ts)
   \<and> query_object (metrics_query_params qu f t None None None)
       = Inr (JObj [(''rowId'', JStr ''A''), (''query'', JStr qu)])"
proof -
  have "\<exists>q. query_object (metrics_query_params qu f t qz ru ts) = Inr (JObj q)
      \<and> map_of q ''quantization'' = map_option JInt qz
      \<and> map_of q ''rollup'' = map_option JStr ru
      \<and> map_of q ''timeshift'' = map_option JInt ts"
    by (cases qz; cases ru; cases ts)
       (simp_all add: query_object_def metrics_query_params_def Let_def)
  moreover have "query_object (metrics_query_params qu f t None None None)
       = Inr (JObj [(''rowId'', JStr ''A''), (''query'', JStr qu)])"
    by (simp add: query_object_def metrics_query_params_def Let_def)
  ultimately show ?thesis by blast
qed

theorem optional_parameters_omitted_witness:
  "\<exists>q. query_object (metrics_query_params ''cpu'' ''2024-01-01T00:00:00'' ''2024-01-02T00:00:00''
           None (Some ''Avg'') None) = Inr (JObj q)
      \<and> map_of q ''quantization'' = None
      \<and> map_of q ''rollup'' = Some (JStr ''Avg'')
      \<and> map_of q ''timeshift'' = None"
  using optional_parameters_omitted
    [of "''cpu''" "''2024-01-01T00:00:00''" "''2024-01-02T00:00:00''" None "Some ''Avg''" None]
  by simp

section \<open>Rows, pages and the pagination loop\<close>

lemma keys_dict_merge: "fst ` set (dict_merge a b) = fst ` set a \<union> fst ` set b"
  unfolding dict_merge_def
  by (induction b arbitrary: a) (auto simp: dom_update)

lemma map_of_merge_custom_columns:
  "map_of (dict_merge m (custom_columns cfg now)) =
     (map_of m)(''start_date'' \<mapsto> JStr (start_date cfg), ''end_date'' \<mapsto> JStr (end_date cfg),
        ''time_zone'' \<mapsto> JStr (time_zone cfg), ''_SDC_EXTRACTED_AT'' \<mapsto> JStr now,
        ''_SDC_BATCHED_AT'' \<mapsto> JStr now, ''_SDC_DELETED_AT'' \<mapsto> JNull)"
  by (simp add: dict_merge_def custom_columns_def update_conv')

lemma shape_rows_Inr:
  "shape_rows cc rows = Inr new \<Longrightarrow>
     list_all2 (\<lambda>row r. \<exists>m. getitem row ''map'' = Inr (JObj m) \<and> r = JObj (dict_merge m cc))
       rows new"
  by (induction rows arbitrary: new) (auto split: sum.splits json.splits)

declare paginate.simps [simp del]

lemma paginate_halts:
  "paginate api job qt cc rc n count records = Inr (rs, c, k) \<Longrightarrow>
     n \<le> k \<and> k - n \<le> nat (rc - count) \<and>
     c - count = int (length rs) - int (length records) \<and>
     (rc \<le> c \<or>
      (n < k \<and> (\<exists>response recs. search_job_records api (k - 1) job qt 10000 c = Inr response
          \<and> getitem response qt = Inr recs \<and> py_iter recs = Inr [])))"
proof (induction api job qt cc rc n count records rule: paginate.induct)
  case (1 api job qt cc rc n count records)
  show ?case
  proof (cases "count < rc")
    case False
    with "1.prems" show ?thesis by (simp add: paginate.simps)
  next
    case True
    from "1.prems" True obtain response recs rows new where
      a: "search_job_records api n job qt 10000 count = Inr response"
      and b: "getitem response qt = Inr recs"
      and c: "py_iter recs = Inr rows"
      and d: "shape_rows cc rows = Inr new"
      and e: "(if length rows > 0
               then paginate api job qt cc rc (Suc n) (count + int (length rows)) (records @ new)
               else Inr (records @ new, count, Suc n)) = Inr (rs, c, k)"
      by (subst (asm) paginate.simps) (auto split: sum.splits)
    have len: "length new = length rows"
      using shape_rows_Inr [OF d] by (simp add: list_all2_lengthD)
    show ?thesis
    proof (cases "length rows > 0")
      case False
      with e a b c len True show ?thesis by auto
    next
      case pos: True
      with e have "paginate api job qt cc rc (Suc n) (count + int (length rows)) (records @ new)
          = Inr (rs, c, k)" by simp
      from "1.IH" [OF True a b c d pos this] have
        ih1: "Suc n \<le> k"
        and ih2: "k - Suc n \<le> nat (rc - (count + int (length rows)))"
        and ih3: "c - (count + int (length rows)) = int (length rs) - int (length (records @ new))"
        and ih4: "rc \<le> c \<or>
          (Suc n < k \<and> (\<exists>response recs. search_job_records api (k - 1) job qt 10000 c = Inr response
              \<and> getitem response qt = Inr recs \<and> py_iter recs = Inr []))"
        by blast+
      have b1: "n \<le> k" using ih1 by simp
      have b2: "k - n \<le> nat (rc - count)" using ih1 ih2 pos True by linarith
      have b3: "c - count = int (length rs) - int (length records)" using ih3 len by simp
      have b4: "rc \<le> c \<or>
          (n < k \<and> (\<exists>response recs. search_job_records api (k - 1) job qt 10000 c = Inr response
              \<and> getitem response qt = Inr recs \<and> py_iter recs = Inr []))"
        using ih4 by auto
      from b1 b2 b3 b4 show ?thesis by blast
    qed
  qed
qed

section \<open>The polling loop\<close>

lemma delitem_histogram:
  "has_histogram s \<Longrightarrow> delitem s ''histogramBuckets'' = Inr (strip_histogram s)"
  by (cases s) (auto simp: has_histogram_def strip_histogram_def split: option.splits)

lemma state_strip_histogram [simp]:
  "getitem (strip_histogram s) ''state'' = getitem s ''state''"
  by (cases s) (auto simp: strip_histogram_def delete_conv')

lemma pending_strip_histogram [simp]: "pending (strip_histogram s) = pending s"
  by (simp add: pending_def)

lemma poll_terminal:
  "getitem status ''state'' = Inr state \<Longrightarrow>
   state = JStr ''DONE GATHERING RESULTS'' \<or> state = JStr ''CANCELLED'' \<Longrightarrow>
   poll api job n status = Some (Inr (status, n))"
  by (subst poll.simps) auto

lemma poll_pending:
  "pending status \<Longrightarrow>
   poll api job n status =
     (case search_job_status api n job of
        Inl e \<Rightarrow> Some (Inl e)
      | Inr status' \<Rightarrow>
          (case delitem status' ''histogramBuckets'' of
             Inl e \<Rightarrow> Some (Inl e)
           | Inr status'' \<Rightarrow> poll api job (Suc n) status''))"
  by (subst poll.simps) (auto simp: pending_def split: sum.splits)

lemma poll_prefix:
  assumes "\<forall>i<length mid. search_job_status api (n + i) job = Inr (mid ! i)"
    and "list_all pending mid" and "list_all has_histogram mid" and "pending cur"
  shows "poll api job n cur =
     poll api job (n + length mid) (if mid = [] then cur else strip_histogram (last mid))"
  using assms
proof (induction mid arbitrary: n cur)
  case Nil
  then show ?case by simp
next
  case (Cons r mid)
  from Cons.prems(1) have r: "search_job_status api n job = Inr r" by force
  from Cons.prems(1) have rest: "\<forall>i<length mid. search_job_status api (Suc n + i) job = Inr (mid ! i)"
    by force
  from Cons.prems have pr: "pending r" and hr: "has_histogram r"
    and pm: "list_all pending mid" and hm: "list_all has_histogram mid" by simp_all
  have "poll api job n cur = poll api job (Suc n) (strip_histogram r)"
    using Cons.prems(4) r hr by (simp add: poll_pending delitem_histogram)
  also have "\<dots> = poll api job (Suc n + length mid)
      (if mid = [] then strip_histogram r else strip_histogram (last mid))"
    using Cons.IH [OF rest pm hm] pr by simp
  finally show ?case by simp
qed

lemma read_results_not_done:
  "getitem status ''state'' = Inr state \<Longrightarrow> state \<noteq> JStr ''DONE GATHERING RESULTS'' \<Longrightarrow>
   read_results api job qt cc status n = Inr []"
  by (simp add: read_results_def)

lemma drive_job_cancelled:
  assumes calls: "\<forall>i<length sts. search_job_status api (Suc i) job = Inr (sts ! i)"
    and ne: "sts \<noteq> []"
    and pend: "list_all pending (butlast sts)"
    and hist: "list_all has_histogram (tl sts)"
    and fin: "getitem (last sts) ''state'' = Inr (JStr ''CANCELLED'')"
  shows "drive_job api job qt cc (hd sts) = Some (Inr [])"
proof (cases "tl sts = []")
  case True
  with ne have "sts = [hd sts]" by (cases sts) auto
  with fin have "getitem (hd sts) ''state'' = Inr (JStr ''CANCELLED'')" by (metis last.simps)
  then show ?thesis
    by (simp add: drive_job_def poll_terminal read_results_not_done)
next
  case False
  define s0 where "s0 = hd sts"
  define mid where "mid = butlast (tl sts)"
  define fin' where "fin' = last sts"
  from False ne have sts: "sts = s0 # mid @ [fin']"
    unfolding s0_def mid_def fin'_def by (cases sts) auto
  have c_mid: "\<forall>i<length mid. search_job_status api (2 + i) job = Inr (mid ! i)"
  proof (intro allI impI)
    fix i assume "i < length mid"
    then have "Suc i < length sts" and "sts ! Suc i = mid ! i"
      by (simp_all add: sts nth_append)
    with calls show "search_job_status api (2 + i) job = Inr (mid ! i)" by force
  qed
  have c_fin: "search_job_status api (2 + length mid) job = Inr fin'"
  proof -
    have "Suc (length mid) < length sts" and "sts ! Suc (length mid) = fin'"
      by (simp_all add: sts nth_append)
    with calls show ?thesis by force
  qed
  from pend have p0: "pending s0" and pm: "list_all pending mid"
    by (simp_all add: sts butlast_append)
  from hist have hm: "list_all has_histogram mid" and hf: "has_histogram fin'"
    by (simp_all add: sts)
  from fin have sf: "getitem fin' ''state'' = Inr (JStr ''CANCELLED'')" by (simp add: fin'_def)
  define cur where "cur = (if mid = [] then s0 else strip_histogram (last mid))"
  have pc: "pending cur" using p0 pm unfolding cur_def
    by (cases mid rule: rev_cases) auto
  have "poll api job 2 s0 = poll api job (2 + length mid) cur"
    unfolding cur_def by (rule poll_prefix [OF c_mid pm hm p0])
  also have "\<dots> = poll api job (Suc (2 + length mid)) (strip_histogram fin')"
    using pc c_fin hf by (simp add: poll_pending delitem_histogram)
  also have "\<dots> = Some (Inr (strip_histogram fin', Suc (2 + length mid)))"
    using sf by (simp add: poll_terminal)
  finally show ?thesis using sf
    by (simp add: drive_job_def s0_def [symmetric] read_results_not_done)
qed

lemma getitem_strip_histogram:
  "k \<noteq> ''histogramBuckets'' \<Longrightarrow> getitem (strip_histogram s) k = getitem s k"
  by (cases s) (auto simp: strip_histogram_def delete_conv')

lemma count_key_not_histogram: "butlast qt @ ''Count'' \<noteq> ''histogramBuckets''"
proof
  assume "butlast qt @ ''Count'' = ''histogramBuckets''"
  then have "last (butlast qt @ ''Count'') = last ''histogramBuckets''" by (rule arg_cong)
  then show False by simp
qed

lemma count_strip_histogram:
  "getitem (strip_histogram s) (butlast qt @ ''Count'') = getitem s (butlast qt @ ''Count'')"
  by (rule getitem_strip_histogram [OF count_key_not_histogram])

lemma read_results_strip_histogram:
  "read_results api job qt cc (strip_histogram s) n = read_results api job qt cc s n"
  unfolding read_results_def count_strip_histogram state_strip_histogram ..

lemma drive_job_initial_histogram:
  "drive_job api job qt cc (strip_histogram s) = drive_job api job qt cc s"
proof (cases "pending s")
  case True
  then show ?thesis by (simp add: drive_job_def poll_pending)
next
  case False
  show ?thesis
  proof (cases "getitem s ''state''")
    case (Inl e)
    then have "poll api job 2 s = Some (Inl e)"
      and "poll api job 2 (strip_histogram s) = Some (Inl e)"
      by (subst poll.simps, simp)+
    then show ?thesis by (simp add: drive_job_def)
  next
    case (Inr state)
    with False have t: "state = JStr ''DONE GATHERING RESULTS'' \<or> state = JStr ''CANCELLED''"
      by (auto simp: pending_def)
    from Inr have "getitem (strip_histogram s) ''state'' = Inr state" by simp
    from poll_terminal [OF this t] poll_terminal [OF Inr t] show ?thesis
      by (simp add: drive_job_def read_results_strip_histogram)
  qed
qed

lemma drive_job_missing_histogram:
  assumes calls: "\<forall>i<length sts. search_job_status api (Suc i) job = Inr (sts ! i)"
    and ne: "sts \<noteq> []"
    and pend: "list_all pending sts"
    and hist: "list_all has_histogram (tl sts)"
    and bad: "search_job_status api (Suc (length sts)) job = Inr (JObj d)"
    and nokey: "map_of d ''histogramBuckets'' = None"
  shows "drive_job api job qt cc (hd sts) = Some (Inl (KeyError ''histogramBuckets''))"
proof -
  define s0 where "s0 = hd sts"
  define mid where "mid = tl sts"
  from ne have sts: "sts = s0 # mid" unfolding s0_def mid_def by simp
  have c_mid: "\<forall>i<length mid. search_job_status api (2 + i) job = Inr (mid ! i)"
  proof (intro allI impI)
    fix i assume "i < length mid"
    then have "Suc i < length sts" and "sts ! Suc i = mid ! i" by (simp_all add: sts)
    with calls show "search_job_status api (2 + i) job = Inr (mid ! i)" by force
  qed
  from pend have p0: "pending s0" and pm: "list_all pending mid" by (simp_all add: sts)
  from hist have hm: "list_all has_histogram mid" by (simp add: sts)
  define cur where "cur = (if mid = [] then s0 else strip_histogram (last mid))"
  have pc: "pending cur" using p0 pm unfolding cur_def
    by (cases mid rule: rev_cases) auto
  from bad have bad': "search_job_status api (2 + length mid) job = Inr (JObj d)"
    by (simp add: sts)
  have "poll api job 2 s0 = poll api job (2 + length mid) cur"
    unfolding cur_def by (rule poll_prefix [OF c_mid pm hm p0])
  also have "\<dots> = Some (Inl (KeyError ''histogramBuckets''))"
    using pc bad' nokey by (simp add: poll_pending)
  finally show ?thesis by (simp add: drive_job_def s0_def [symmetric])
qed

lemma get_records_search:
  assumes "query_type self = ''records'' \<or> query_type self = ''messages''"
    and "search_job api 0 (query self) (start_date cfg) (end_date cfg) (time_zone cfg)
           (by_receipt_time self) (auto_parsing_mode self) = Inr job"
    and "search_job_status api 1 job = Inr status"
  shows "get_records api cfg now self =
           drive_job api job (query_type self) (custom_columns cfg now) status"
  using assms by (auto simp: get_records_def)

text \<open>
  C3, as the code has it. A full extraction of a records or messages table whose polled
  statuses \<open>sts\<close> (the answers to HTTP calls 1, 2, ...) end in the CANCELLED state, every
  earlier one being in a non-terminal state, and in which every status fetched inside
  the polling loop (every one but the first) has the histogramBuckets key, returns: it
  yields no record and raises nothing.
\<close>

theorem cancelled_job_yields_nothing:
  assumes "query_type self = ''records'' \<or> query_type self = ''messages''"
    and "search_job api 0 (query self) (start_date cfg) (end_date cfg) (time_zone cfg)
           (by_receipt_time self) (auto_parsing_mode self) = Inr job"
    and "sts \<noteq> []"
    and "\<forall>i<length sts. search_job_status api (Suc i) job = Inr (sts ! i)"
    and "list_all pending (butlast sts)"
    and "list_all has_histogram (tl sts)"
    and "getitem (last sts) ''state'' = Inr (JStr ''CANCELLED'')"
  shows "get_records api cfg now self = Some (Inr [])"
proof -
  from assms(3,4) have "search_job_status api 1 job = Inr (hd sts)"
    by (cases sts) force+
  from get_records_search [OF assms(1,2) this]
  show ?thesis
    by (simp add: drive_job_cancelled [OF assms(4,3,5,6,7)])
qed

lemma ex_search_job [simp]:
  "search_job api_cancelled 0 q f t z b a = Inr ex_job"
  "search_job (api_done rows) 0 q f t z b a = Inr ex_job"
  "search_job api_no_histogram 0 q f t z b a = Inr ex_job"
  by (simp_all add: search_job_def api_cancelled_def api_done_def api_no_histogram_def)

theorem cancelled_job_yields_nothing_witness:
  "get_records api_cancelled ex_config ''2024-01-03 00:00:00.000000''
     (ex_stream ''records'' JNull) = Some (Inr [])"
proof -
  let ?g = "ex_status ''GATHERING RESULTS'' 0"
  let ?c = "ex_status ''CANCELLED'' 0"
  let ?s = "ex_stream ''records'' JNull"
  have 1: "query_type ?s = ''records'' \<or> query_type ?s = ''messages''"
    by (simp add: ex_stream_def)
  have 2: "search_job api_cancelled 0 (query ?s) (start_date ex_config) (end_date ex_config)
     (time_zone ex_config) (by_receipt_time ?s) (auto_parsing_mode ?s) = Inr ex_job"
    by simp
  have 3: "[?g, ?g, ?c] \<noteq> []" by simp
  have 4: "\<forall>i<length [?g, ?g, ?c]. search_job_status api_cancelled (Suc i) ex_job = Inr ([?g, ?g, ?c] ! i)"
    by (auto simp: search_job_status_def ex_job_def api_cancelled_def less_Suc_eq nth_Cons')
  have 5: "list_all pending (butlast [?g, ?g, ?c])"
    by (simp add: pending_def ex_status_def)
  have 6: "list_all has_histogram (tl [?g, ?g, ?c])"
    by (simp add: has_histogram_def ex_status_def)
  have 7: "getitem (last [?g, ?g, ?c]) ''state'' = Inr (JStr ''CANCELLED'')"
    by (simp add: ex_status_def)
  from cancelled_job_yields_nothing [OF 1 2 3 4 5 6 7] show ?thesis .
qed

text \<open>
  C3 as stated fails. The job is polled as GATHERING, GATHERING, CANCELLED, and the
  CANCELLED status has no histogramBuckets key: the loop deletes the key from the status
  it has just fetched before it tests the state, and the extraction raises KeyError.
\<close>

theorem cancelled_without_histogram_counterexample:
  "get_records api_cancelled_bare ex_config ex_now (ex_stream ''records'' JNull)
     = Some (Inl (KeyError ''histogramBuckets''))"
proof -
  let ?g = "ex_status ''GATHERING RESULTS'' 0"
  let ?d = "[(''state'', JStr ''CANCELLED''), (''recordCount'', JInt 0)]"
  let ?s = "ex_stream ''records'' JNull"
  have 1: "query_type ?s = ''records'' \<or> query_type ?s = ''messages''"
    by (simp add: ex_stream_def)
  have 2: "search_job api_cancelled_bare 0 (query ?s) (start_date ex_config)
      (end_date ex_config) (time_zone ex_config) (by_receipt_time ?s) (auto_parsing_mode ?s)
      = Inr ex_job"
    by (simp add: search_job_def api_cancelled_bare_def)
  have 3: "search_job_status api_cancelled_bare 1 ex_job = Inr (hd [?g, ?g])"
    by (simp add: search_job_status_def ex_job_def api_cancelled_bare_def)
  have 4: "\<forall>i<length [?g, ?g].
      search_job_status api_cancelled_bare (Suc i) ex_job = Inr ([?g, ?g] ! i)"
    by (auto simp: search_job_status_def ex_job_def api_cancelled_bare_def less_Suc_eq nth_Cons')
  have 5: "[?g, ?g] \<noteq> []" by simp
  have 6: "list_all pending [?g, ?g]" by (simp add: pending_def ex_status_def)
  have 7: "list_all has_histogram (tl [?g, ?g])" by (simp add: has_histogram_def ex_status_def)
  have 8: "search_job_status api_cancelled_bare (Suc (length [?g, ?g])) ex_job = Inr (JObj ?d)"
    by (simp add: search_job_status_def ex_job_def api_cancelled_bare_def)
  have 9: "map_of ?d ''histogramBuckets'' = None" by simp
  show ?thesis
    unfolding get_records_search [OF 1 2 3]
    by (rule drive_job_missing_histogram [OF 4 5 6 7 8 9])
qed

text \<open>
  C10. In the polling loop of the full extraction, a status fetched inside the loop
  that lacks the histogramBuckets key makes the extraction raise KeyError, whatever its
  state, terminal or not (first part: the statuses \<open>sts\<close> keep the loop running and
  the next one is \<open>JObj d\<close>, without the key). A status fetched inside the loop that
  has the key goes on without it (second part). The status fetched before the loop is not
  required to have the key: with it or without it the extraction does the same (third
  part).
\<close>

theorem histogram_key_required_in_loop:
  "((query_type self = ''records'' \<or> query_type self = ''messages'')
      \<and> search_job api 0 (query self) (start_date cfg) (end_date cfg) (time_zone cfg)
           (by_receipt_time self) (auto_parsing_mode self) = Inr job
      \<and> sts \<noteq> []
      \<and> (\<forall>i<length sts. search_job_status api (Suc i) job = Inr (sts ! i))
      \<and> list_all pending sts
      \<and> list_all has_histogram (tl sts)
      \<and> search_job_status api (Suc (length sts)) job = Inr (JObj d)
      \<and> map_of d ''histogramBuckets'' = None
    \<longrightarrow> get_records api cfg now self = Some (Inl (KeyError ''histogramBuckets'')))
   \<and> (pending status \<and> search_job_status api n job = Inr (JObj d')
        \<and> map_of d' ''histogramBuckets'' = Some v
      \<longrightarrow> poll api job n status = poll api job (Suc n) (JObj (AList.delete ''histogramBuckets'' d'))
          \<and> map_of (AList.delete ''histogramBuckets'' d') ''histogramBuckets'' = None)
   \<and> drive_job api job qt cc (JObj d0)
       = drive_job api job qt cc (JObj (AList.delete ''histogramBuckets'' d0))"
proof (intro conjI impI)
  assume a: "(query_type self = ''records'' \<or> query_type self = ''messages'')
      \<and> search_job api 0 (query self) (start_date cfg) (end_date cfg) (time_zone cfg)
           (by_receipt_time self) (auto_parsing_mode self) = Inr job
      \<and> sts \<noteq> []
      \<and> (\<forall>i<length sts. search_job_status api (Suc i) job = Inr (sts ! i))
      \<and> list_all pending sts
      \<and> list_all has_histogram (tl sts)
      \<and> search_job_status api (Suc (length sts)) job = Inr (JObj d)
      \<and> map_of d ''histogramBuckets'' = None"
  then have "search_job_status api 1 job = Inr (hd sts)"
    by (cases sts) force+
  with a have "get_records api cfg now self =
      drive_job api job (query_type self) (custom_columns cfg now) (hd sts)"
    by (intro get_records_search) simp_all
  with a show "get_records api cfg now self = Some (Inl (KeyError ''histogramBuckets''))"
    by (simp add: drive_job_missing_histogram)
next
  assume b: "pending status \<and> search_job_status api n job = Inr (JObj d')
        \<and> map_of d' ''histogramBuckets'' = Some v"
  then show "poll api job n status
      = poll api job (Suc n) (JObj (AList.delete ''histogramBuckets'' d'))"
    by (simp add: poll_pending)
  show "map_of (AList.delete ''histogramBuckets'' d') ''histogramBuckets'' = None"
    by (simp add: delete_conv')
next
  show "drive_job api job qt cc (JObj d0)
       = drive_job api job qt cc (JObj (AList.delete ''histogramBuckets'' d0))"
    using drive_job_initial_histogram [of api job qt cc "JObj d0"]
    by (simp add: strip_histogram_def)
qed

text \<open>The run of \<open>api_no_histogram\<close>: the status before the loop has no histogram
  key and is accepted; the second status fetched inside the loop is DONE without the key,
  and the extraction raises.\<close>

theorem histogram_key_required_in_loop_witness:
  "get_records api_no_histogram ex_config ''2024-01-03 00:00:00.000000''
     (ex_stream ''records'' JNull) = Some (Inl (KeyError ''histogramBuckets''))
   \<and> map_of [(''state'', JStr ''DONE GATHERING RESULTS''), (''recordCount'', JInt 0)]
         ''histogramBuckets'' = None"
proof -
  let ?s1 = "JObj [(''state'', JStr ''GATHERING RESULTS'')]"
  let ?s2 = "ex_status ''GATHERING RESULTS'' 0"
  let ?d = "[(''state'', JStr ''DONE GATHERING RESULTS''), (''recordCount'', JInt 0)]"
  let ?s = "ex_stream ''records'' JNull"
  have "(query_type ?s = ''records'' \<or> query_type ?s = ''messages'')
      \<and> search_job api_no_histogram 0 (query ?s) (start_date ex_config) (end_date ex_config)
           (time_zone ex_config) (by_receipt_time ?s) (auto_parsing_mode ?s) = Inr ex_job
      \<and> [?s1, ?s2] \<noteq> []
      \<and> (\<forall>i<length [?s1, ?s2].
            search_job_status api_no_histogram (Suc i) ex_job = Inr ([?s1, ?s2] ! i))
      \<and> list_all pending [?s1, ?s2]
      \<and> list_all has_histogram (tl [?s1, ?s2])
      \<and> search_job_status api_no_histogram (Suc (length [?s1, ?s2])) ex_job = Inr (JObj ?d)
      \<and> map_of ?d ''histogramBuckets'' = None"
    by (auto simp: ex_stream_def search_job_status_def ex_job_def api_no_histogram_def
          less_Suc_eq nth_Cons' pending_def has_histogram_def ex_status_def)
  with histogram_key_required_in_loop
    [of ?s api_no_histogram ex_config ex_job "[?s1, ?s2]" ?d
        "''2024-01-03 00:00:00.000000''"]
  show ?thesis by blast
qed

section \<open>Termination of the pagination\<close>

text \<open>
  C2. The pagination loop halts whatever the service answers and whatever total count
  was reported: \<open>paginate\<close> is a total function (its termination is proved with the
  measure \<open>record_count - count\<close>), and it either raises or returns after at most
  \<open>record_count - count\<close> calls. The offset has then advanced by the number of rows
  appended, and either it has reached the total count or the last page fetched, at the
  final offset, had no row.
\<close>

theorem pagination_terminates:
  "(\<exists>e. paginate api job qt cc record_count n count records = Inl e)
   \<or> (\<exists>rs c k. paginate api job qt cc record_count n count records = Inr (rs, c, k)
        \<and> n \<le> k \<and> k - n \<le> nat (record_count - count)
        \<and> c - count = int (length rs) - int (length records)
        \<and> (record_count \<le> c
            \<or> (n < k \<and> (\<exists>response recs.
                   search_job_records api (k - 1) job qt 10000 c = Inr response
                   \<and> getitem response qt = Inr recs \<and> py_iter recs = Inr []))))"
proof (cases "paginate api job qt cc record_count n count records")
  case (Inl e)
  then show ?thesis by blast
next
  case (Inr final)
  obtain rs c k where "final = (rs, c, k)" by (cases final) auto
  with Inr have "paginate api job qt cc record_count n count records = Inr (rs, c, k)" by simp
  from this paginate_halts [OF this] show ?thesis by blast
qed


lemma paginate_two_rows:
  "paginate (api_done [ex_row ''a'', ex_row ''b'']) ex_job ''records'' cc 2 2 0 []
     = Inr ([JObj (dict_merge [(''host'', JStr ''a'')] cc),
             JObj (dict_merge [(''host'', JStr ''b'')] cc)], 2, 3)"
  by (simp add: paginate.simps search_job_records_def ex_job_def api_done_def ex_row_def)

theorem pagination_terminates_witness:
  "\<exists>rs c k. paginate (api_done [ex_row ''a'', ex_row ''b'']) ex_job ''records'' [] 2 2 0 []
        = Inr (rs, c, k)
      \<and> k - 2 \<le> nat (2 - 0) \<and> c - 0 = int (length rs) - int (length ([] :: json list))"
  using pagination_terminates
    [of "api_done [ex_row ''a'', ex_row ''b'']" ex_job "''records''" "[]" 2 2 0 "[]"]
  by (simp add: paginate_two_rows)

section \<open>The records of an extraction\<close>

declare result_pages.simps [simp del]

lemma shape_rows_merged:
  "shape_rows cc rows = Inr new \<Longrightarrow> list_all2 (merged_record cc) rows new"
  by (induction rows arbitrary: new)
     (auto simp: merged_record_def split: sum.splits json.splits)

lemma paginate_rows:
  "paginate api job qt cc rc n count records = Inr (rs, c, k) \<Longrightarrow>
     \<exists>new. rs = records @ new \<and>
       list_all2 (merged_record cc) (result_pages api job qt rc n count) new"
proof (induction api job qt cc rc n count records rule: paginate.induct)
  case (1 api job qt cc rc n count records)
  show ?case
  proof (cases "count < rc")
    case False
    with "1.prems" show ?thesis by (simp add: paginate.simps result_pages.simps)
  next
    case True
    from "1.prems" True obtain response recs rows new where
      a: "search_job_records api n job qt 10000 count = Inr response"
      and b: "getitem response qt = Inr recs"
      and c: "py_iter recs = Inr rows"
      and d: "shape_rows cc rows = Inr new"
      and e: "(if length rows > 0
               then paginate api job qt cc rc (Suc n) (count + int (length rows)) (records @ new)
               else Inr (records @ new, count, Suc n)) = Inr (rs, c, k)"
      by (subst (asm) paginate.simps) (auto split: sum.splits)
    have new: "list_all2 (merged_record cc) rows new" by (rule shape_rows_merged [OF d])
    show ?thesis
    proof (cases "length rows > 0")
      case False
      then have "result_pages api job qt rc n count = []"
        using True a b c by (subst result_pages.simps) simp
      moreover from False new have "new = []" by simp
      moreover from False e have "rs = records @ new" by simp
      ultimately show ?thesis by simp
    next
      case pos: True
      with e have "paginate api job qt cc rc (Suc n) (count + int (length rows)) (records @ new)
          = Inr (rs, c, k)" by simp
      from "1.IH" [OF True a b c d pos this] obtain new' where
        rs: "rs = (records @ new) @ new'"
        and rest: "list_all2 (merged_record cc)
            (result_pages api job qt rc (Suc n) (count + int (length rows))) new'"
        by blast
      have pages: "result_pages api job qt rc n count
          = rows @ result_pages api job qt rc (Suc n) (count + int (length rows))"
        using True a b c pos by (subst result_pages.simps) simp
      have "list_all2 (merged_record cc) (result_pages api job qt rc n count) (new @ new')"
        unfolding pages using new rest by (rule list_all2_appendI)
      with rs show ?thesis by simp
    qed
  qed
qed

lemma read_results_rows:
  assumes "read_results api job qt cc status n = Inr recs"
  shows "list_all2 (merged_record cc) (job_rows api job qt status n) recs"
proof (cases "getitem status ''state''")
  case (Inl e)
  with assms show ?thesis by (simp add: read_results_def)
next
  case (Inr state)
  show ?thesis
  proof (cases "state = JStr ''DONE GATHERING RESULTS''")
    case False
    with Inr assms show ?thesis by (simp add: read_results_def job_rows_def)
  next
    case True
    with Inr assms obtain c rc final where
      c: "getitem status (butlast qt @ ''Count'') = Inr c"
      and rc: "py_number c = Inr rc"
      and p: "paginate api job qt cc rc n 0 [] = Inr final"
      and f: "recs = fst final"
      by (auto simp: read_results_def split: sum.splits)
    obtain x y where "final = (recs, x, y)" using f by (cases final) auto
    with p have "paginate api job qt cc rc n 0 [] = Inr (recs, x, y)" by simp
    from paginate_rows [OF this]
    have "list_all2 (merged_record cc) (result_pages api job qt rc n 0) recs" by simp
    with Inr True c rc show ?thesis by (simp add: job_rows_def)
  qed
qed

lemma get_records_rows:
  assumes qt: "query_type self = ''records'' \<or> query_type self = ''messages''"
    and run: "get_records api cfg now self = Some (Inr recs)"
  shows "\<exists>job first status n.
           search_job api 0 (query self) (start_date cfg) (end_date cfg) (time_zone cfg)
             (by_receipt_time self) (auto_parsing_mode self) = Inr job
         \<and> search_job_status api 1 job = Inr first
         \<and> poll api job 2 first = Some (Inr (status, n))
         \<and> list_all2 (merged_record (custom_columns cfg now))
              (job_rows api job (query_type self) status n) recs"
proof -
  let ?cc = "custom_columns cfg now"
  from qt run obtain job first where
    job: "search_job api 0 (query self) (start_date cfg) (end_date cfg) (time_zone cfg)
             (by_receipt_time self) (auto_parsing_mode self) = Inr job"
    and first: "search_job_status api 1 job = Inr first"
    and d: "drive_job api job (query_type self) ?cc first = Some (Inr recs)"
    by (auto simp: get_records_def split: sum.splits)
  from d obtain final where
    p: "poll api job 2 first = Some (Inr final)"
    and r: "read_results api job (query_type self) ?cc (fst final) (snd final) = Inr recs"
    by (auto simp: drive_job_def split: option.splits sum.splits)
  from p have p': "poll api job 2 first = Some (Inr (fst final, snd final))" by simp
  from job first p' read_results_rows [OF r] show ?thesis by iprover
qed

lemma ex_status_call [simp]:
  "search_job_status (api_done rows) n ex_job
     = Inr (ex_status ''DONE GATHERING RESULTS'' (int (length rows)))"
  by (simp add: search_job_status_def ex_job_def api_done_def)

lemma get_records_one_row:
  "get_records (api_done [JObj [(''map'', JObj m)]]) cfg now (ex_stream ''messages'' sch)
     = Some (Inr [JObj (dict_merge m (custom_columns cfg now))])"
proof -
  let ?api = "api_done [JObj [(''map'', JObj m)]]"
  let ?st = "ex_status ''DONE GATHERING RESULTS'' (int (length [JObj [(''map'', JObj m)]]))"
  have "poll ?api ex_job 2 ?st = Some (Inr (?st, 2))"
    by (rule poll_terminal [where state = "JStr ''DONE GATHERING RESULTS''"])
       (simp_all add: ex_status_def)
  moreover have "read_results ?api ex_job ''messages'' (custom_columns cfg now) ?st 2
      = Inr [JObj (dict_merge m (custom_columns cfg now))]"
    by (simp add: read_results_def ex_status_def paginate.simps search_job_records_def
          ex_job_def api_done_def)
  ultimately show ?thesis
    by (simp add: get_records_def ex_stream_def drive_job_def)
qed

lemma job_rows_one_row:
  "job_rows (api_done [row]) ex_job ''messages'' (ex_status ''DONE GATHERING RESULTS'' 1) 2
     = [row]"
  by (simp add: job_rows_def ex_status_def result_pages.simps search_job_records_def
        ex_job_def api_done_def)

lemma one_row_run:
  assumes "search_job (api_done [row]) 0 q f t z b a = Inr job"
    and "search_job_status (api_done [row]) 1 job = Inr first"
    and "poll (api_done [row]) job 2 first = Some (Inr (status, n))"
  shows "job_rows (api_done [row]) job ''messages'' status n = [row]"
proof -
  from assms(1) have j: "job = ex_job" by simp
  from assms(2) have f: "first = ex_status ''DONE GATHERING RESULTS'' 1" by (simp add: j)
  have "poll (api_done [row]) ex_job 2 (ex_status ''DONE GATHERING RESULTS'' 1)
      = Some (Inr (ex_status ''DONE GATHERING RESULTS'' 1, 2))"
    by (rule poll_terminal [where state = "JStr ''DONE GATHERING RESULTS''"])
       (simp_all add: ex_status_def)
  with assms(3) have "status = ex_status ''DONE GATHERING RESULTS'' 1" and "n = 2"
    by (simp_all add: j f)
  then show ?thesis by (simp add: j job_rows_one_row)
qed

text \<open>
  C9. A records or messages extraction that succeeds yields one record for every row of
  the job's result pages, in the order the pages serve them, and nothing else: the
  record of a row is the row's field map merged with the metadata block
  (\<open>merged_record\<close>). Merging overrides the row's entries by start_date, end_date and
  time_zone of the configuration, by _SDC_EXTRACTED_AT and _SDC_BATCHED_AT, both the one
  clock reading \<open>now\<close> of the run and so the same in every row, and by a null
  _SDC_DELETED_AT.
\<close>

theorem records_carry_metadata:
  assumes "query_type self = ''records'' \<or> query_type self = ''messages''"
    and "get_records api cfg now self = Some (Inr recs)"
  shows "(\<exists>job first status n.
            search_job api 0 (query self) (start_date cfg) (end_date cfg) (time_zone cfg)
              (by_receipt_time self) (auto_parsing_mode self) = Inr job
          \<and> search_job_status api 1 job = Inr first
          \<and> poll api job 2 first = Some (Inr (status, n))
          \<and> list_all2 (merged_record (custom_columns cfg now))
               (job_rows api job (query_type self) status n) recs)
       \<and> (\<forall>m. map_of (dict_merge m (custom_columns cfg now)) =
                 (map_of m)(''start_date'' \<mapsto> JStr (start_date cfg),
                    ''end_date'' \<mapsto> JStr (end_date cfg),
                    ''time_zone'' \<mapsto> JStr (time_zone cfg),
                    ''_SDC_EXTRACTED_AT'' \<mapsto> JStr now,
                    ''_SDC_BATCHED_AT'' \<mapsto> JStr now,
                    ''_SDC_DELETED_AT'' \<mapsto> JNull))"
  using get_records_rows [OF assms] map_of_merge_custom_columns by (intro conjI allI)

theorem records_carry_metadata_witness:
  "get_records (api_done [ex_row ''web1'']) ex_config ex_now (ex_stream ''messages'' JNull)
     = Some (Inr [JObj [(''host'', JStr ''web1''),
               (''start_date'', JStr ''2024-01-01T00:00:00''),
               (''end_date'', JStr ''2024-01-02T00:00:00''),
               (''time_zone'', JStr ''UTC''),
               (''_SDC_EXTRACTED_AT'', JStr ex_now),
               (''_SDC_BATCHED_AT'', JStr ex_now),
               (''_SDC_DELETED_AT'', JNull)]])
   \<and> list_all2 (merged_record (custom_columns ex_config ex_now)) [ex_row ''web1'']
        [JObj [(''host'', JStr ''web1''),
               (''start_date'', JStr ''2024-01-01T00:00:00''),
               (''end_date'', JStr ''2024-01-02T00:00:00''),
               (''time_zone'', JStr ''UTC''),
               (''_SDC_EXTRACTED_AT'', JStr ex_now),
               (''_SDC_BATCHED_AT'', JStr ex_now),
               (''_SDC_DELETED_AT'', JNull)]]"
proof -
  let ?s = "ex_stream ''messages'' JNull"
  let ?api = "api_done [ex_row ''web1'']"
  let ?r = "JObj (dict_merge [(''host'', JStr ''web1'')] (custom_columns ex_config ex_now))"
  have 1: "query_type ?s = ''records'' \<or> query_type ?s = ''messages''"
    by (simp add: ex_stream_def)
  have qt: "query_type ?s = ''messages''" by (simp add: ex_stream_def)
  have 2: "get_records ?api ex_config ex_now ?s = Some (Inr [?r])"
    unfolding ex_row_def by (rule get_records_one_row)
  have 3: "?r = JObj [(''host'', JStr ''web1''),
               (''start_date'', JStr ''2024-01-01T00:00:00''),
               (''end_date'', JStr ''2024-01-02T00:00:00''),
               (''time_zone'', JStr ''UTC''),
               (''_SDC_EXTRACTED_AT'', JStr ex_now),
               (''_SDC_BATCHED_AT'', JStr ex_now),
               (''_SDC_DELETED_AT'', JNull)]"
    by (simp add: dict_merge_def custom_columns_def ex_config_def)
  from records_carry_metadata [OF 1 2] obtain job first status n where
    a: "search_job ?api 0 (query ?s) (start_date ex_config) (end_date ex_config)
            (time_zone ex_config) (by_receipt_time ?s) (auto_parsing_mode ?s) = Inr job"
    and b: "search_job_status ?api 1 job = Inr first"
    and c: "poll ?api job 2 first = Some (Inr (status, n))"
    and d: "list_all2 (merged_record (custom_columns ex_config ex_now))
               (job_rows ?api job (query_type ?s) status n) [?r]"
    by iprover
  from d have "list_all2 (merged_record (custom_columns ex_config ex_now)) [ex_row ''web1''] [?r]"
    unfolding qt one_row_run [OF a b c] .
  with 2 show ?thesis unfolding 3 by (rule conjI)
qed

section \<open>Conformance of the records to the schema\<close>

lemma keys_custom_columns: "fst ` set (custom_columns cfg now) = set metadata_columns"
  by (simp add: custom_columns_def metadata_columns_def)

lemma conforms_keys:
  "getitem sch ''properties'' = Inr (JObj props) \<Longrightarrow>
   conforms sch (JObj d) \<longleftrightarrow>
     fst ` set props \<subseteq> fst ` set d \<and> fst ` set d \<subseteq> fst ` set props \<union> set metadata_columns"
  unfolding conforms_def
  by (simp add: list_all_iff subset_iff image_iff Ball_def)

lemma conforms_needs_properties:
  "conforms sch r \<Longrightarrow> \<exists>props. getitem sch ''properties'' = Inr (JObj props)"
proof (cases "getitem sch ''properties''")
  case (Inl e)
  moreover assume "conforms sch r"
  ultimately show ?thesis by (simp add: conforms_def)
next
  case (Inr v)
  assume c: "conforms sch r"
  show ?thesis
  proof (cases v)
    case (JObj props)
    with Inr show ?thesis by simp
  qed (use Inr c in \<open>simp_all add: conforms_def\<close>)
qed

lemma conforms_merged_iff:
  "conforms sch (JObj (dict_merge m (custom_columns cfg now)))
     \<longleftrightarrow> (\<exists>props. getitem sch ''properties'' = Inr (JObj props)
            \<and> fst ` set props \<subseteq> fst ` set m \<union> set metadata_columns
            \<and> fst ` set m \<subseteq> fst ` set props \<union> set metadata_columns)"
proof -
  let ?d = "dict_merge m (custom_columns cfg now)"
  define K where "K = fst ` set m"
  define M where "M = set metadata_columns"
  have kd: "fst ` set ?d = K \<union> M"
    by (simp add: keys_dict_merge keys_custom_columns K_def M_def)
  have step: "conforms sch (JObj ?d) \<longleftrightarrow> P \<subseteq> K \<union> M \<and> K \<subseteq> P \<union> M"
    if p: "getitem sch ''properties'' = Inr (JObj props)" and P: "P = fst ` set props"
    for props P
  proof -
    have "conforms sch (JObj ?d) \<longleftrightarrow> P \<subseteq> K \<union> M \<and> K \<union> M \<subseteq> P \<union> M"
      unfolding conforms_keys [OF p] kd P M_def [symmetric] ..
    also have "\<dots> \<longleftrightarrow> P \<subseteq> K \<union> M \<and> K \<subseteq> P \<union> M" by blast
    finally show ?thesis .
  qed
  show ?thesis
  proof
    assume c: "conforms sch (JObj ?d)"
    from conforms_needs_properties [OF c] obtain props where
      p: "getitem sch ''properties'' = Inr (JObj props)" ..
    from step [OF p refl] c
    have "fst ` set props \<subseteq> K \<union> M \<and> K \<subseteq> fst ` set props \<union> M" by simp
    with p show "\<exists>props. getitem sch ''properties'' = Inr (JObj props)
            \<and> fst ` set props \<subseteq> fst ` set m \<union> set metadata_columns
            \<and> fst ` set m \<subseteq> fst ` set props \<union> set metadata_columns"
      unfolding K_def M_def by iprover
  next
    assume "\<exists>props. getitem sch ''properties'' = Inr (JObj props)
            \<and> fst ` set props \<subseteq> fst ` set m \<union> set metadata_columns
            \<and> fst ` set m \<subseteq> fst ` set props \<union> set metadata_columns"
    then obtain props where
      p: "getitem sch ''properties'' = Inr (JObj props)"
      and k: "fst ` set props \<subseteq> K \<union> M \<and> K \<subseteq> fst ` set props \<union> M"
      unfolding K_def M_def by iprover
    from step [OF p refl] k show "conforms sch (JObj ?d)" by simp
  qed
qed

lemma merged_record_conforms:
  assumes "merged_record (custom_columns cfg now) row r"
  shows "\<exists>m. getitem row ''map'' = Inr (JObj m)
           \<and> r = JObj (dict_merge m (custom_columns cfg now))
           \<and> fst ` set (dict_merge m (custom_columns cfg now))
                = fst ` set m \<union> set metadata_columns
           \<and> (conforms sch r \<longleftrightarrow>
                (\<exists>props. getitem sch ''properties'' = Inr (JObj props)
                   \<and> fst ` set props \<subseteq> fst ` set m \<union> set metadata_columns
                   \<and> fst ` set m \<subseteq> fst ` set props \<union> set metadata_columns))"
proof -
  from assms obtain m where
    a: "getitem row ''map'' = Inr (JObj m)"
    and b: "r = JObj (dict_merge m (custom_columns cfg now))"
    by (auto simp: merged_record_def split: sum.splits json.splits)
  have c: "fst ` set (dict_merge m (custom_columns cfg now))
                = fst ` set m \<union> set metadata_columns"
    by (simp add: keys_dict_merge keys_custom_columns)
  have d: "conforms sch r \<longleftrightarrow>
                (\<exists>props. getitem sch ''properties'' = Inr (JObj props)
                   \<and> fst ` set props \<subseteq> fst ` set m \<union> set metadata_columns
                   \<and> fst ` set m \<subseteq> fst ` set props \<union> set metadata_columns)"
    unfolding b by (rule conforms_merged_iff)
  from a b c d show ?thesis by iprover
qed

text \<open>
  C1, as the code has it. A records or messages extraction that succeeds yields one
  record for every row of the job's result pages, in order: the field map \<open>m\<close> of the row
  merged with the metadata block, whose keys are those of \<open>m\<close> and the six metadata
  columns, none added and none dropped. Whatever the table's schema, the record conforms
  to it exactly when the schema has a properties object, every key of that object is a
  key of the row or a metadata column, and every key of the row is a schema property or a
  metadata column.
\<close>

theorem records_conform_iff_rows_match:
  assumes "query_type self = ''records'' \<or> query_type self = ''messages''"
    and "get_records api cfg now self = Some (Inr recs)"
  shows "\<exists>job first status n.
            search_job api 0 (query self) (start_date cfg) (end_date cfg) (time_zone cfg)
              (by_receipt_time self) (auto_parsing_mode self) = Inr job
          \<and> search_job_status api 1 job = Inr first
          \<and> poll api job 2 first = Some (Inr (status, n))
          \<and> list_all2
               (\<lambda>row r. \<exists>m. getitem row ''map'' = Inr (JObj m)
                  \<and> r = JObj (dict_merge m (custom_columns cfg now))
                  \<and> fst ` set (dict_merge m (custom_columns cfg now))
                       = fst ` set m \<union> set metadata_columns
                  \<and> (conforms (schema self) r \<longleftrightarrow>
                       (\<exists>props. getitem (schema self) ''properties'' = Inr (JObj props)
                          \<and> fst ` set props \<subseteq> fst ` set m \<union> set metadata_columns
                          \<and> fst ` set m \<subseteq> fst ` set props \<union> set metadata_columns)))
               (job_rows api job (query_type self) status n) recs"
proof -
  from get_records_rows [OF assms] obtain job first status n where
    a: "search_job api 0 (query self) (start_date cfg) (end_date cfg) (time_zone cfg)
              (by_receipt_time self) (auto_parsing_mode self) = Inr job"
    and b: "search_job_status api 1 job = Inr first"
    and c: "poll api job 2 first = Some (Inr (status, n))"
    and d: "list_all2 (merged_record (custom_columns cfg now))
               (job_rows api job (query_type self) status n) recs"
    by iprover
  from d have "list_all2
               (\<lambda>row r. \<exists>m. getitem row ''map'' = Inr (JObj m)
                  \<and> r = JObj (dict_merge m (custom_columns cfg now))
                  \<and> fst ` set (dict_merge m (custom_columns cfg now))
                       = fst ` set m \<union> set metadata_columns
                  \<and> (conforms (schema self) r \<longleftrightarrow>
                       (\<exists>props. getitem (schema self) ''properties'' = Inr (JObj props)
                          \<and> fst ` set props \<subseteq> fst ` set m \<union> set metadata_columns
                          \<and> fst ` set m \<subseteq> fst ` set props \<union> set metadata_columns)))
               (job_rows api job (query_type self) status n) recs"
    by (rule list_all2_mono) (rule merged_record_conforms)
  with a b c show ?thesis by iprover
qed

lemma ex_schema_properties:
  "getitem (get_schema_for_table ''messages'' [host_field]) ''properties'' =
     Inr (JObj [(''host'', base_type), (''start_date'', base_type), (''end_date'', base_type),
                (''time_zone'', base_type)])"
  by (simp add: get_schema_for_table_def field_step.simps host_field_def base_type_def Let_def)

text \<open>
  C1 as stated fails. The probe reported the field host; the one row of the job has the
  field _raw and no host. The extraction succeeds, and its record lacks the schema
  property host and has the key _raw, which is neither a schema property nor a metadata
  column.
\<close>

theorem records_conform_counterexample:
  "get_records (api_done [raw_row]) ex_config ex_now
      (ex_stream ''messages'' (get_schema_for_table ''messages'' [host_field]))
     = Some (Inr [JObj [(''_raw'', JStr ''boom''),
               (''start_date'', JStr ''2024-01-01T00:00:00''),
               (''end_date'', JStr ''2024-01-02T00:00:00''),
               (''time_zone'', JStr ''UTC''),
               (''_SDC_EXTRACTED_AT'', JStr ex_now),
               (''_SDC_BATCHED_AT'', JStr ex_now),
               (''_SDC_DELETED_AT'', JNull)]])
   \<and> \<not> conforms (get_schema_for_table ''messages'' [host_field])
        (JObj [(''_raw'', JStr ''boom''),
               (''start_date'', JStr ''2024-01-01T00:00:00''),
               (''end_date'', JStr ''2024-01-02T00:00:00''),
               (''time_zone'', JStr ''UTC''),
               (''_SDC_EXTRACTED_AT'', JStr ex_now),
               (''_SDC_BATCHED_AT'', JStr ex_now),
               (''_SDC_DELETED_AT'', JNull)])"
proof -
  have m: "dict_merge [(''_raw'', JStr ''boom'')] (custom_columns ex_config ex_now) =
       [(''_raw'', JStr ''boom''),
        (''start_date'', JStr ''2024-01-01T00:00:00''),
        (''end_date'', JStr ''2024-01-02T00:00:00''),
        (''time_zone'', JStr ''UTC''),
        (''_SDC_EXTRACTED_AT'', JStr ex_now),
        (''_SDC_BATCHED_AT'', JStr ex_now),
        (''_SDC_DELETED_AT'', JNull)]"
    by (simp add: dict_merge_def custom_columns_def ex_config_def)
  have "get_records (api_done [raw_row]) ex_config ex_now
      (ex_stream ''messages'' (get_schema_for_table ''messages'' [host_field]))
     = Some (Inr [JObj (dict_merge [(''_raw'', JStr ''boom'')] (custom_columns ex_config ex_now))])"
    unfolding raw_row_def by (rule get_records_one_row)
  then have run: "get_records (api_done [raw_row]) ex_config ex_now
      (ex_stream ''messages'' (get_schema_for_table ''messages'' [host_field]))
     = Some (Inr [JObj [(''_raw'', JStr ''boom''),
               (''start_date'', JStr ''2024-01-01T00:00:00''),
               (''end_date'', JStr ''2024-01-02T00:00:00''),
               (''time_zone'', JStr ''UTC''),
               (''_SDC_EXTRACTED_AT'', JStr ex_now),
               (''_SDC_BATCHED_AT'', JStr ex_now),
               (''_SDC_DELETED_AT'', JNull)]])"
    unfolding m .
  have "\<not> conforms (get_schema_for_table ''messages'' [host_field])
        (JObj [(''_raw'', JStr ''boom''),
               (''start_date'', JStr ''2024-01-01T00:00:00''),
               (''end_date'', JStr ''2024-01-02T00:00:00''),
               (''time_zone'', JStr ''UTC''),
               (''_SDC_EXTRACTED_AT'', JStr ex_now),
               (''_SDC_BATCHED_AT'', JStr ex_now),
               (''_SDC_DELETED_AT'', JNull)])"
    by (simp add: conforms_keys [OF ex_schema_properties])
  with run show ?thesis by (rule conjI)
qed

theorem records_conform_iff_rows_match_witness:
  "get_records (api_done [ex_row ''web1'']) ex_config ex_now
      (ex_stream ''messages'' (get_schema_for_table ''messages'' [host_field]))
     = Some (Inr [JObj (dict_merge [(''host'', JStr ''web1'')]
                    (custom_columns ex_config ex_now))])
   \<and> list_all2
        (\<lambda>row r. \<exists>m. getitem row ''map'' = Inr (JObj m)
           \<and> r = JObj (dict_merge m (custom_columns ex_config ex_now))
           \<and> fst ` set (dict_merge m (custom_columns ex_config ex_now))
                = fst ` set m \<union> set metadata_columns
           \<and> (conforms (get_schema_for_table ''messages'' [host_field]) r \<longleftrightarrow>
                (\<exists>props. getitem (get_schema_for_table ''messages'' [host_field]) ''properties''
                            = Inr (JObj props)
                   \<and> fst ` set props \<subseteq> fst ` set m \<union> set metadata_columns
                   \<and> fst ` set m \<subseteq> fst ` set props \<union> set metadata_columns)))
        [ex_row ''web1'']
        [JObj (dict_merge [(''host'', JStr ''web1'')] (custom_columns ex_config ex_now))]
   \<and> conforms (get_schema_for_table ''messages'' [host_field])
        (JObj (dict_merge [(''host'', JStr ''web1'')] (custom_columns ex_config ex_now)))"
proof -
  let ?sch = "get_schema_for_table ''messages'' [host_field]"
  let ?s = "ex_stream ''messages'' ?sch"
  let ?api = "api_done [ex_row ''web1'']"
  let ?r = "JObj (dict_merge [(''host'', JStr ''web1'')] (custom_columns ex_config ex_now))"
  have 1: "query_type ?s = ''records'' \<or> query_type ?s = ''messages''"
    by (simp add: ex_stream_def)
  have qt: "query_type ?s = ''messages''" by (simp add: ex_stream_def)
  have sch: "schema ?s = ?sch" by (simp add: ex_stream_def)
  have 2: "get_records ?api ex_config ex_now ?s = Some (Inr [?r])"
    unfolding ex_row_def by (rule get_records_one_row)
  have 3: "conforms ?sch ?r"
    by (simp add: conforms_keys [OF ex_schema_properties] keys_dict_merge keys_custom_columns
          metadata_columns_def)
  from records_conform_iff_rows_match [OF 1 2] obtain job first status n where
    a: "search_job ?api 0 (query ?s) (start_date ex_config) (end_date ex_config)
            (time_zone ex_config) (by_receipt_time ?s) (auto_parsing_mode ?s) = Inr job"
    and b: "search_job_status ?api 1 job = Inr first"
    and c: "poll ?api job 2 first = Some (Inr (status, n))"
    and d: "list_all2
        (\<lambda>row r. \<exists>m. getitem row ''map'' = Inr (JObj m)
           \<and> r = JObj (dict_merge m (custom_columns ex_config ex_now))
           \<and> fst ` set (dict_merge m (custom_columns ex_config ex_now))
                = fst ` set m \<union> set metadata_columns
           \<and> (conforms (schema ?s) r \<longleftrightarrow>
                (\<exists>props. getitem (schema ?s) ''properties'' = Inr (JObj props)
                   \<and> fst ` set props \<subseteq> fst ` set m \<union> set metadata_columns
                   \<and> fst ` set m \<subseteq> fst ` set props \<union> set metadata_columns)))
        (job_rows ?api job (query_type ?s) status n) [?r]"
    by iprover
  note d' = d [unfolded qt sch one_row_run [OF a b c]]
  from 2 d' 3 show ?thesis by (intro conjI)
qed

section \<open>The metrics extraction\<close>

text \<open>A metrics extraction yields the entries of the first query result's time series
  as they are, with no metadata column merged in.\<close>

lemma metrics_records_direct:
  assumes "query_type self = ''metrics''"
    and "metrics_query api 0 (query self) (start_date cfg) (end_date cfg)
           (quantization self) (rollup self) (timeshift self) = Inr response"
    and "time_series response = Inr (JList series)"
  shows "get_records api cfg now self = Some (Inr series)"
  using assms by (simp add: get_records_def)

text \<open>
  C4. \<^verbatim>\<open>get_records\<close> never reads the error list of a metrics response. On a
  response that reports an error and one time series, the extraction yields the time
  series and raises nothing, while \<^verbatim>\<open>get_metrics_query_fields\<close>, the metrics probe
  of schema inference, raises on the same response with the error payload.
\<close>

theorem metrics_errors_not_checked:
  "get_records (api_metrics ex_metrics_response) ex_config ex_now (ex_stream ''metrics'' JNull)
     = Some (Inr [JObj [(''metricDefinition'', JObj []), (''points'', JObj [])]])
   \<and> get_metrics_query_fields (api_metrics ex_metrics_response) 0 ''_sourceCategory=prod''
        ''2024-01-01T00:00:00'' ''2024-01-02T00:00:00'' None None None
     = Inl (RequestError
         (JObj [(''errors'', JList [JObj [(''message'', JStr ''The query timed out'')]])]))"
proof -
  have ts: "time_series ex_metrics_response
      = Inr (JList [JObj [(''metricDefinition'', JObj []), (''points'', JObj [])]])"
    by (simp add: time_series_def ex_metrics_response_def)
  have "get_records (api_metrics ex_metrics_response) ex_config ex_now
          (ex_stream ''metrics'' JNull)
     = Some (Inr [JObj [(''metricDefinition'', JObj []), (''points'', JObj [])]])"
    by (rule metrics_records_direct [OF _ _ ts])
       (simp_all add: ex_stream_def metrics_query_def api_metrics_def)
  moreover have "get_metrics_query_fields (api_metrics ex_metrics_response) 0
        ''_sourceCategory=prod'' ''2024-01-01T00:00:00'' ''2024-01-02T00:00:00'' None None None
     = Inl (RequestError
         (JObj [(''errors'', JList [JObj [(''message'', JStr ''The query timed out'')]])]))"
    by (simp add: get_metrics_query_fields_def metrics_query_def api_metrics_def
          ex_metrics_response_def)
  ultimately show ?thesis by (rule conjI)
qed

section \<open>The key properties of a stream\<close>

text \<open>
  C8. \<^verbatim>\<open>stream["primary_keys"] or schema["key_properties"]\<close> is the configured list
  alone whenever that list is not empty. For a messages table configured with the
  primary key id, whose inferred schema has six key properties, the stream's primary
  keys are id only.
\<close>

theorem configured_primary_keys_replace_schema_keys:
  "\<exists>s. discover_stream (ex_resolver [host_field]) (ex_table ''messages'' [''id'']) = Inr s
      \<and> primary_keys s = JList [JStr ''id'']
      \<and> getitem (schema s) ''key_properties''
           = Inr (JList [JStr ''host'', JStr ''start_date'', JStr ''end_date'',
                         JStr ''time_zone'', JStr ''_messagetime'', JStr ''_messageid''])"
proof -
  have k: "getitem (get_schema_for_table ''messages'' [host_field]) ''key_properties''
           = Inr (JList [JStr ''host'', JStr ''start_date'', JStr ''end_date'',
                         JStr ''time_zone'', JStr ''_messagetime'', JStr ''_messageid''])"
    by (simp add: key_properties_inferred host_field_def)
  show ?thesis
    by (simp add: discover_stream_def ex_resolver_def ex_table_def k)
qed

end
